theory Spec2Isabelle
  imports Complex_Main "HOL-Library.Word"
begin

section \<open>Go runtime: panics, errors, slices and maps\<close>

text \<open>
  A Go call either returns or panics. Every function of \<^verbatim>\<open>base/experiment.go\<close> that
  indexes a slice, dereferences a pointer or assigns into a map is modelled with a result of
  type \<open>'a go\<close>, so that each run-time panic of the source is a branch of the model.
\<close>

datatype panic = IndexOutOfRange | NilMapAssignment | NilDereference | TypeAssertion

datatype 'a go = Panic panic | Return 'a

text \<open>
  The error values built with \<^verbatim>\<open>fmt.Errorf\<close> and \<^verbatim>\<open>errors.New\<close> in the source, one
  constructor for each site; \<open>ErrExternal\<close> stands for an error handed back by a task, by
  the driver or by the predicate evaluator.
\<close>

datatype error =
    ErrIncompatible
  | ErrInsufficientVersions
  | ErrCannotExtractPercent
  | ErrMetaDiffer
  | ErrSLOConflict
  | ErrNilResult
  | ErrNoVectorMetricInfo
  | ErrNoScalarMetricInfo
  | ErrInvalidMetricName
  | ErrExternal string

text \<open>\<^verbatim>\<open>xs[i]\<close> on a slice with an index of Go type \<^verbatim>\<open>int\<close>.\<close>

definition index :: "'a list \<Rightarrow> int \<Rightarrow> 'a go" where
  "index xs i = (if 0 \<le> i \<and> i < int (length xs) then Return (xs ! nat i) else Panic IndexOutOfRange)"

text \<open>
  A Go map value may be \<^verbatim>\<open>nil\<close>: reading a nil map finds nothing, assigning into it
  panics. \<open>None\<close> is the nil map.
\<close>

type_synonym ('k, 'v) gomap = "('k \<rightharpoonup> 'v) option"

definition map_get :: "('k, 'v) gomap \<Rightarrow> 'k \<Rightarrow> 'v option" where
  "map_get mp k = (case mp of None \<Rightarrow> None | Some f \<Rightarrow> f k)"

definition map_set :: "('k, 'v) gomap \<Rightarrow> 'k \<Rightarrow> 'v \<Rightarrow> ('k, 'v) gomap go" where
  "map_set mp k v = (case mp of None \<Rightarrow> Panic NilMapAssignment | Some f \<Rightarrow> Return (Some (f(k \<mapsto> v))))"

text \<open>
  A slice that \<^verbatim>\<open>reflect.DeepEqual\<close> inspects keeps the difference between the nil slice
  and the empty one (they are not deeply equal); \<open>None\<close> is the nil slice.
\<close>

type_synonym 'a slice = "'a list option"

definition elems :: "'a slice \<Rightarrow> 'a list" where
  "elems s = (case s of None \<Rightarrow> [] | Some xs \<Rightarrow> xs)"

text \<open>\<^verbatim>\<open>x++\<close> on a Go \<^verbatim>\<open>int\<close> (64 bits, two's complement).\<close>

definition incr :: "int \<Rightarrow> int" where
  "incr x = (x + 1 + 2 ^ 63) mod 2 ^ 64 - 2 ^ 63"

subsection \<open>Strings\<close>

definition HasPrefix :: "string \<Rightarrow> string \<Rightarrow> bool" where
  "HasPrefix s p = (take (length p) s = p)"

definition TrimPrefix :: "string \<Rightarrow> string \<Rightarrow> string" where
  "TrimPrefix s p = (if HasPrefix s p then drop (length p) s else s)"

text \<open>\<^verbatim>\<open>strings.Split(m, sep)\<close> for a separator of one byte.\<close>

fun Split :: "string \<Rightarrow> char \<Rightarrow> string list" where
  "Split [] sep = [[]]"
| "Split (c # cs) sep =
     (if c = sep then [] # Split cs sep
      else (case Split cs sep of [] \<Rightarrow> [[c]] | w # ws \<Rightarrow> (c # w) # ws))"

section \<open>External libraries\<close>

text \<open>
  The source calls \<^verbatim>\<open>strconv.ParseFloat\<close>, \<^verbatim>\<open>fmt.Sprintf("%v", percent)\<close>,
  \<^verbatim>\<open>regexp.MatchString(decimalRegex, b)\<close> and four functions of the statistics package
  \<^verbatim>\<open>github.com/montanaflynn/stats\<close>. None of them is code of this repository, so the model
  takes them as parameters; \<open>'f\<close> is the type of \<^verbatim>\<open>float64\<close> values, which the
  functions of \<^verbatim>\<open>experiment.go\<close> only store, compare for identity and pass on.
  A library call that returns a non-nil error is \<open>None\<close>.
\<close>

record 'f extlib =
  strconv_ParseFloat :: "string \<Rightarrow> 'f option"
  fmt_Sprint :: "'f \<Rightarrow> string"
  regexp_MatchDecimal :: "string \<Rightarrow> bool"
  stats_Mean :: "'f list \<Rightarrow> 'f option"
  stats_StandardDeviation :: "'f list \<Rightarrow> 'f option"
  stats_Min :: "'f list \<Rightarrow> 'f option"
  stats_Percentile :: "'f list \<Rightarrow> 'f \<Rightarrow> 'f option"

section \<open>Data model\<close>

text \<open>
  Modelled from the spec: the metric type constants \<^verbatim>\<open>CounterMetricType\<close>,
  \<^verbatim>\<open>GaugeMetricType\<close>, \<^verbatim>\<open>SampleMetricType\<close> and \<^verbatim>\<open>HistogramMetricType\<close> are declared
  outside \<^verbatim>\<open>experiment.go\<close>. \<^verbatim>\<open>MetricType\<close> is a string type, so a value can be none
  of the four: \<open>OtherMetricType\<close>.
\<close>

datatype MetricType =
    CounterMetricType
  | GaugeMetricType
  | SampleMetricType
  | HistogramMetricType
  | OtherMetricType string

text \<open>
  Modelled from the spec: the bucket type \<^verbatim>\<open>HistBucket\<close> is declared outside
  \<^verbatim>\<open>experiment.go\<close>; the artifact format gives it the fields lower, upper and count.
\<close>

record 'f HistBucket =
  BucketLower :: 'f
  BucketUpper :: 'f
  BucketCount :: "64 word"

record MetricMeta =
  Description :: string
  Units :: "string option"
  Type :: MetricType

record 'f SLO =
  Metric :: string
  Limit :: 'f

record 'f SLOLimits =
  Upper :: "'f SLO slice"
  Lower :: "'f SLO slice"

text \<open>The fields \<^verbatim>\<open>Upper\<close> and \<^verbatim>\<open>Lower\<close> of \<^verbatim>\<open>SLOResults\<close>.\<close>

record SLOResults =
  SatUpper :: "bool list list"
  SatLower :: "bool list list"

record 'f Insights =
  NumVersions :: int
  MetricsInfo :: "(string, MetricMeta) gomap"
  NonHistMetricValues :: "(string, 'f list) gomap list"
  HistMetricValues :: "(string, 'f HistBucket list) gomap list"
  SLOs :: "'f SLOLimits option"
  SLOsSatisfied :: "SLOResults option"

text \<open>The dynamic types that \<^verbatim>\<open>val interface{}\<close> is switched on in \<^verbatim>\<open>metricTypeMatch\<close>.\<close>

datatype 'f metric_value =
    Float64 'f
  | Float64Slice "'f list"
  | HistBucketSlice "'f HistBucket list"
  | Unsupported

section \<open>Metric names\<close>

text \<open>
  Modelled from the spec: the name constants are declared outside \<^verbatim>\<open>experiment.go\<close>.
  The spec gives the two percentile prefixes as \<^verbatim>\<open>http/latency-p\<close> and
  \<^verbatim>\<open>grpc/latency/p\<close> and the aggregator tokens as mean, stddev, min, max, count.
\<close>

definition httpMetricPrefix :: string where "httpMetricPrefix = ''http''"
definition builtInHTTPLatencyPercentilePrefix :: string where
  "builtInHTTPLatencyPercentilePrefix = ''latency-p''"
definition gRPCMetricPrefix :: string where "gRPCMetricPrefix = ''grpc''"
definition gRPCLatencySampleMetricName :: string where "gRPCLatencySampleMetricName = ''latency''"
definition PercentileAggregatorPrefix :: string where "PercentileAggregatorPrefix = ''p''"
definition CountAggregator :: string where "CountAggregator = ''count''"
definition MeanAggregator :: string where "MeanAggregator = ''mean''"
definition StdDevAggregator :: string where "StdDevAggregator = ''stddev''"
definition MinAggregator :: string where "MinAggregator = ''min''"
definition MaxAggregator :: string where "MaxAggregator = ''max''"

definition preHTTP :: string where
  "preHTTP = httpMetricPrefix @ ''/'' @ builtInHTTPLatencyPercentilePrefix"

definition preGRPC :: string where
  "preGRPC = gRPCMetricPrefix @ ''/'' @ gRPCLatencySampleMetricName @ ''/'' @ PercentileAggregatorPrefix"

text \<open>The value of the local variable \<^verbatim>\<open>pre\<close> of \<^verbatim>\<open>NormalizeMetricName\<close>.\<close>

definition percentilePrefix :: "string \<Rightarrow> string" where
  "percentilePrefix m =
     (if HasPrefix m preHTTP then preHTTP
      else if HasPrefix m preGRPC then preGRPC
      else '''')"

text \<open>\<^verbatim>\<open>NormalizeMetricName\<close> returns a name and an error (\<open>None\<close> is the nil error).\<close>

definition NormalizeMetricName :: "'f extlib \<Rightarrow> string \<Rightarrow> string \<times> error option" where
  "NormalizeMetricName L m =
     (let pre = percentilePrefix m in
      if length pre > 0 then
        (let remainder = TrimPrefix m pre in
         case strconv_ParseFloat L remainder of
           None \<Rightarrow> (m, Some ErrCannotExtractPercent)
         | Some percent \<Rightarrow> (pre @ fmt_Sprint L percent, None))
      else (m, None))"

section \<open>Insights store\<close>

definition metricTypeMatch :: "MetricType \<Rightarrow> 'f metric_value \<Rightarrow> bool" where
  "metricTypeMatch t val =
     (case val of
        Float64 v \<Rightarrow> (if t = CounterMetricType \<or> t = GaugeMetricType then True else False)
      | Float64Slice v \<Rightarrow> (if t = SampleMetricType then True else False)
      | HistBucketSlice v \<Rightarrow> (if t = HistogramMetricType then True else False)
      | Unsupported \<Rightarrow> False)"

text \<open>
  The three value updaters assign \<^verbatim>\<open>in.X[i][m] = append(in.X[i][m], ...)\<close>: the slice is
  indexed (panic out of range), the map is read (nil map: nothing found) and then assigned
  (nil map: panic).
\<close>

definition updateMetricValueScalar :: "'f Insights \<Rightarrow> string \<Rightarrow> int \<Rightarrow> 'f \<Rightarrow> 'f Insights go" where
  "updateMetricValueScalar ins m i val =
     (case index (NonHistMetricValues ins) i of
        Panic p \<Rightarrow> Panic p
      | Return mp \<Rightarrow>
          (case map_set mp m ((case map_get mp m of None \<Rightarrow> [] | Some old \<Rightarrow> old) @ [val]) of
             Panic p \<Rightarrow> Panic p
           | Return mp' \<Rightarrow>
               Return (ins\<lparr>NonHistMetricValues := (NonHistMetricValues ins)[nat i := mp']\<rparr>)))"

definition updateMetricValueVector :: "'f Insights \<Rightarrow> string \<Rightarrow> int \<Rightarrow> 'f list \<Rightarrow> 'f Insights go" where
  "updateMetricValueVector ins m i val =
     (case index (NonHistMetricValues ins) i of
        Panic p \<Rightarrow> Panic p
      | Return mp \<Rightarrow>
          (case map_set mp m ((case map_get mp m of None \<Rightarrow> [] | Some old \<Rightarrow> old) @ val) of
             Panic p \<Rightarrow> Panic p
           | Return mp' \<Rightarrow>
               Return (ins\<lparr>NonHistMetricValues := (NonHistMetricValues ins)[nat i := mp']\<rparr>)))"

definition updateMetricValueHist ::
  "'f Insights \<Rightarrow> string \<Rightarrow> int \<Rightarrow> 'f HistBucket list \<Rightarrow> 'f Insights go" where
  "updateMetricValueHist ins m i val =
     (case index (HistMetricValues ins) i of
        Panic p \<Rightarrow> Panic p
      | Return mp \<Rightarrow>
          (case map_set mp m ((case map_get mp m of None \<Rightarrow> [] | Some old \<Rightarrow> old) @ val) of
             Panic p \<Rightarrow> Panic p
           | Return mp' \<Rightarrow>
               Return (ins\<lparr>HistMetricValues := (HistMetricValues ins)[nat i := mp']\<rparr>)))"

text \<open>
  \<^verbatim>\<open>registerMetric\<close> returns the error and leaves the insights as they are when the name
  is registered with a meta that is not deeply equal; \<^verbatim>\<open>reflect.DeepEqual\<close> on two
  \<^verbatim>\<open>MetricMeta\<close> values compares description, type and the pointed-to units.
\<close>

definition registerMetric ::
  "'f Insights \<Rightarrow> string \<Rightarrow> MetricMeta \<Rightarrow> ('f Insights \<times> error option) go" where
  "registerMetric ins m mm =
     (case map_get (MetricsInfo ins) m of
        Some old \<Rightarrow>
          (if old \<noteq> mm then Return (ins, Some ErrMetaDiffer)
           else (case map_set (MetricsInfo ins) m mm of
                   Panic p \<Rightarrow> Panic p
                 | Return mi \<Rightarrow> Return (ins\<lparr>MetricsInfo := mi\<rparr>, None)))
      | None \<Rightarrow>
          (case map_set (MetricsInfo ins) m mm of
             Panic p \<Rightarrow> Panic p
           | Return mi \<Rightarrow> Return (ins\<lparr>MetricsInfo := mi\<rparr>, None)))"

text \<open>
  \<^verbatim>\<open>updateMetric\<close>: the checks in the order of the source. The type assertions
  \<^verbatim>\<open>val.(float64)\<close>, \<^verbatim>\<open>val.([]float64)\<close> and \<^verbatim>\<open>val.([]HistBucket)\<close> panic on another
  dynamic type; the \<^verbatim>\<open>default\<close> branch of the final switch only logs.
\<close>

definition updateMetric ::
  "'f extlib \<Rightarrow> 'f Insights \<Rightarrow> string \<Rightarrow> MetricMeta \<Rightarrow> int \<Rightarrow> 'f metric_value
     \<Rightarrow> ('f Insights \<times> error option) go" where
  "updateMetric L ins m mm i val =
     (if \<not> metricTypeMatch (Type mm) val then Return (ins, Some ErrIncompatible)
      else if NumVersions ins \<le> i then Return (ins, Some ErrInsufficientVersions)
      else
        (case NormalizeMetricName L m of
           (nm, Some err) \<Rightarrow> Return (ins, Some err)
         | (nm, None) \<Rightarrow>
             (case registerMetric ins nm mm of
                Panic p \<Rightarrow> Panic p
              | Return (ins1, Some err) \<Rightarrow> Return (ins1, Some err)
              | Return (ins1, None) \<Rightarrow>
                  (case Type mm of
                     CounterMetricType \<Rightarrow>
                       (case val of
                          Float64 v \<Rightarrow>
                            (case updateMetricValueScalar ins1 nm i v of
                               Panic p \<Rightarrow> Panic p | Return ins2 \<Rightarrow> Return (ins2, None))
                        | _ \<Rightarrow> Panic TypeAssertion)
                   | GaugeMetricType \<Rightarrow>
                       (case val of
                          Float64 v \<Rightarrow>
                            (case updateMetricValueScalar ins1 nm i v of
                               Panic p \<Rightarrow> Panic p | Return ins2 \<Rightarrow> Return (ins2, None))
                        | _ \<Rightarrow> Panic TypeAssertion)
                   | SampleMetricType \<Rightarrow>
                       (case val of
                          Float64Slice v \<Rightarrow>
                            (case updateMetricValueVector ins1 nm i v of
                               Panic p \<Rightarrow> Panic p | Return ins2 \<Rightarrow> Return (ins2, None))
                        | _ \<Rightarrow> Panic TypeAssertion)
                   | HistogramMetricType \<Rightarrow>
                       (case val of
                          HistBucketSlice v \<Rightarrow>
                            (case updateMetricValueHist ins1 nm i v of
                               Panic p \<Rightarrow> Panic p | Return ins2 \<Rightarrow> Return (ins2, None))
                        | _ \<Rightarrow> Panic TypeAssertion)
                   | OtherMetricType t \<Rightarrow> Return (ins1, None)))))"

text \<open>
  \<^verbatim>\<open>setSLOs\<close>: \<^verbatim>\<open>reflect.DeepEqual\<close> on two \<^verbatim>\<open>*SLOLimits\<close> holds when both are nil or
  both point to deeply equal values.
\<close>

definition setSLOs :: "'f Insights \<Rightarrow> 'f SLOLimits option \<Rightarrow> 'f Insights \<times> error option" where
  "setSLOs ins slos =
     (if SLOs ins \<noteq> None then
        (if SLOs ins = slos then (ins, None) else (ins, Some ErrSLOConflict))
      else (ins\<lparr>SLOs := slos\<rparr>, None))"

section \<open>Reading metrics\<close>

text \<open>The result \<^verbatim>\<open>*float64\<close> is an option: \<open>None\<close> is the nil pointer.\<close>

definition getCounterOrGaugeMetricFromValuesMap ::
  "'f Insights \<Rightarrow> int \<Rightarrow> string \<Rightarrow> 'f option go" where
  "getCounterOrGaugeMetricFromValuesMap ins i m =
     (case map_get (MetricsInfo ins) m of
        Some mm \<Rightarrow>
          (if Type mm \<noteq> CounterMetricType \<and> Type mm \<noteq> GaugeMetricType then Return None
           else
             (let l = int (length (NonHistMetricValues ins)) in
              if l \<le> i then Return None
              else
                (case index (NonHistMetricValues ins) i of
                   Panic p \<Rightarrow> Panic p
                 | Return mp \<Rightarrow>
                     (case map_get mp m of
                        Some vals \<Rightarrow>
                          (if length vals > 0 then
                             (case index vals (int (length vals) - 1) of
                                Panic p \<Rightarrow> Panic p
                              | Return v \<Rightarrow> Return (Some v))
                           else Return None)
                      | None \<Rightarrow> Return None))))
      | None \<Rightarrow> Return None)"

definition getSampleAggregation ::
  "'f extlib \<Rightarrow> 'f Insights \<Rightarrow> int \<Rightarrow> string \<Rightarrow> string \<Rightarrow> 'f option go" where
  "getSampleAggregation L ins i baseMetric a =
     (case index (NonHistMetricValues ins) i of
        Panic p \<Rightarrow> Panic p
      | Return mp \<Rightarrow>
          (let vals = (case map_get mp baseMetric of None \<Rightarrow> [] | Some xs \<Rightarrow> xs) in
           if length vals = 1 then
             (case index vals 0 of Panic p \<Rightarrow> Panic p | Return v \<Rightarrow> Return (Some v))
           else if a = MeanAggregator then Return (stats_Mean L vals)
           else if a = StdDevAggregator then Return (stats_StandardDeviation L vals)
           else if a = MinAggregator then Return (stats_Min L vals)
           else if a = MaxAggregator then Return (stats_Mean L vals)
           else if HasPrefix a ''p'' then
             (let b = TrimPrefix a ''p'' in
              if regexp_MatchDecimal L b then
                (case strconv_ParseFloat L b of
                   None \<Rightarrow> Return None
                 | Some percent \<Rightarrow> Return (stats_Percentile L vals percent))
              else Return None)
           else Return None))"

definition aggregateMetric :: "'f extlib \<Rightarrow> 'f Insights \<Rightarrow> int \<Rightarrow> string \<Rightarrow> 'f option go" where
  "aggregateMetric L ins i m =
     (let s = Split m CHR ''/'' in
      case index s 0 of
        Panic p \<Rightarrow> Panic p
      | Return s0 \<Rightarrow>
          (case index s 1 of
             Panic p \<Rightarrow> Panic p
           | Return s1 \<Rightarrow>
               (let baseMetric = s0 @ ''/'' @ s1 in
                case map_get (MetricsInfo ins) baseMetric of
                  Some mm \<Rightarrow>
                    (if Type mm = SampleMetricType then
                       (case index s 2 of
                          Panic p \<Rightarrow> Panic p
                        | Return s2 \<Rightarrow> getSampleAggregation L ins i baseMetric s2)
                     else Return None)
                | None \<Rightarrow> Return None)))"

definition ScalarMetricValue :: "'f extlib \<Rightarrow> 'f Insights \<Rightarrow> int \<Rightarrow> string \<Rightarrow> 'f option go" where
  "ScalarMetricValue L ins i m =
     (let s = Split m CHR ''/'' in
      if length s = 3 then aggregateMetric L ins i m
      else if length s = 2 then
        (case NormalizeMetricName L m of
           (nm, Some err) \<Rightarrow> Return None
         | (nm, None) \<Rightarrow> getCounterOrGaugeMetricFromValuesMap ins i nm)
      else Return None)"

text \<open>
  \<^verbatim>\<open>GetMetricsInfo\<close> returns a pointer to a meta, or nil and an error. For an aggregated name
  the meta is synthesised: a counter for the aggregator \<^verbatim>\<open>count\<close>, a gauge for any other.
\<close>

definition GetMetricsInfo :: "'f Insights \<Rightarrow> string \<Rightarrow> MetricMeta option \<times> error option" where
  "GetMetricsInfo ins nm =
     (let s = Split nm CHR ''/'' in
      if length s = 3 then
        (let vm = s ! 0 @ ''/'' @ s ! 1 in
         case map_get (MetricsInfo ins) vm of
           None \<Rightarrow> (None, Some ErrNoVectorMetricInfo)
         | Some mm \<Rightarrow>
             (let aggType = (if s ! 2 \<noteq> CountAggregator then GaugeMetricType else CounterMetricType);
                  formattedAggregator =
                    (if HasPrefix (s ! 2) PercentileAggregatorPrefix
                     then TrimPrefix (s ! 2) PercentileAggregatorPrefix @ ''-th percentile value''
                     else s ! 2 @ '' value'')
              in (Some \<lparr>Description = formattedAggregator @ '' of '' @ vm, Units = Units mm,
                         Type = aggType\<rparr>, None)))
      else if length s = 2 then
        (case map_get (MetricsInfo ins) nm of
           None \<Rightarrow> (None, Some ErrNoScalarMetricInfo)
         | Some mm \<Rightarrow> (Some mm, None))
      else (None, Some ErrInvalidMetricName))"

section \<open>Experiment and engine\<close>

record TaskMeta =
  Task :: "string option"
  Run :: "string option"
  IfCond :: "string option"

text \<open>\<^verbatim>\<open>StartTime\<close> is a wall-clock reading; no function below looks at it.\<close>

record 'f ExperimentResult =
  Revision :: int
  StartTime :: int
  NumLoops :: int
  NumCompletedTasks :: int
  Failure :: bool
  Insights :: "'f Insights option"
  Iter8Version :: string

text \<open>
  \<open>'t\<close> is the type of the task values behind the \<^verbatim>\<open>Task\<close> interface. The
  \<^verbatim>\<open>driver\<close> field is not part of the record: the state of the driver is threaded
  through \<open>run\<close>.
\<close>

record ('f, 't) Experiment =
  Spec :: "'t list"
  Result :: "'f ExperimentResult option"

text \<open>
  The result of \<^verbatim>\<open>expr.Compile\<close> followed by \<^verbatim>\<open>expr.Run\<close> on an \<^verbatim>\<open>if\<close> clause:
  either call may return an error, otherwise the output is a boolean
  (\<^verbatim>\<open>expr.AsBool()\<close>).
\<close>

datatype cond_result = CompileError error | RunError error | Output bool

text \<open>
  What the engine calls and does not define: the tasks (their \<^verbatim>\<open>run\<close> method, and the
  \<^verbatim>\<open>TaskMeta\<close> that \<^verbatim>\<open>getIf\<close> and \<^verbatim>\<open>getName\<close> recover through JSON), the predicate
  evaluator and the driver's \<^verbatim>\<open>Write\<close>, which acts on a driver state \<open>'d\<close>.
\<close>

record ('f, 't, 'd) engine =
  task_meta :: "'t \<Rightarrow> TaskMeta"
  task_run :: "'t \<Rightarrow> ('f, 't) Experiment \<Rightarrow> ('f, 't) Experiment \<times> error option"
  expr_eval :: "string \<Rightarrow> ('f, 't) Experiment \<Rightarrow> cond_result"
  driver_Write :: "'d \<Rightarrow> ('f, 't) Experiment \<Rightarrow> 'd \<times> error option"

text \<open>
  Modelled from the spec: \<^verbatim>\<open>RunTaskName\<close> is declared outside \<^verbatim>\<open>experiment.go\<close>;
  it is the name logged for an inline-script task.
\<close>

definition RunTaskName :: string where "RunTaskName = ''run''"

definition getIf :: "TaskMeta \<Rightarrow> string option" where
  "getIf tm = IfCond tm"

definition getName :: "TaskMeta \<Rightarrow> string option" where
  "getName tm =
     (if Task tm = None then (if Run tm \<noteq> None then Some RunTaskName else None)
      else Task tm)"

definition failExperiment :: "('f, 't) Experiment \<Rightarrow> ('f, 't) Experiment go" where
  "failExperiment e =
     (case Result e of
        None \<Rightarrow> Panic NilDereference
      | Some r \<Rightarrow> Return (e\<lparr>Result := Some (r\<lparr>Failure := True\<rparr>)\<rparr>))"

definition incrementNumCompletedTasks :: "('f, 't) Experiment \<Rightarrow> ('f, 't) Experiment go" where
  "incrementNumCompletedTasks e =
     (case Result e of
        None \<Rightarrow> Panic NilDereference
      | Some r \<Rightarrow> Return (e\<lparr>Result := Some (r\<lparr>NumCompletedTasks := incr (NumCompletedTasks r)\<rparr>)\<rparr>))"

definition incrementNumLoops :: "('f, 't) Experiment \<Rightarrow> ('f, 't) Experiment go" where
  "incrementNumLoops e =
     (case Result e of
        None \<Rightarrow> Panic NilDereference
      | Some r \<Rightarrow> Return (e\<lparr>Result := Some (r\<lparr>NumLoops := incr (NumLoops r)\<rparr>)\<rparr>))"

text \<open>
  The loop over \<^verbatim>\<open>exp.Spec\<close> in \<^verbatim>\<open>run\<close>. The first log line dereferences
  \<^verbatim>\<open>getName(t)\<close>. The value of \<open>shouldRun\<close> is \<open>Inr\<close>, an early return with the
  evaluator's error is \<open>Inl\<close>; after the \<^verbatim>\<open>if shouldRun\<close> statement, \<open>Inr\<close> carries
  the experiment on to the increment and the write, \<open>Inl\<close> is the return of the failure
  branch.
\<close>

fun runTasks ::
  "('f, 't, 'd) engine \<Rightarrow> 't list \<Rightarrow> ('f, 't) Experiment \<Rightarrow> 'd
     \<Rightarrow> (('f, 't) Experiment \<times> 'd \<times> error option) go" where
  "runTasks E [] ex d = Return (ex, d, None)"
| "runTasks E (t # ts) ex d =
     (case getName (task_meta E t) of
        None \<Rightarrow> Panic NilDereference
      | Some name \<Rightarrow>
          (case (case getIf (task_meta E t) of
                   None \<Rightarrow> Inr True
                 | Some cond \<Rightarrow>
                     (case expr_eval E cond ex of
                        CompileError err \<Rightarrow> Inl err
                      | RunError err \<Rightarrow> Inl err
                      | Output b \<Rightarrow> Inr b)) of
             Inl err \<Rightarrow> Return (ex, d, Some err)
           | Inr shouldRun \<Rightarrow>
               (case (if shouldRun then
                        (case task_run E t ex of
                           (exp1, Some err) \<Rightarrow>
                             Inl (case failExperiment exp1 of
                                    Panic p \<Rightarrow> Panic p
                                  | Return exp2 \<Rightarrow>
                                      (case driver_Write E d exp2 of
                                         (d1, Some e) \<Rightarrow> Return (exp2, d1, Some e)
                                       | (d1, None) \<Rightarrow> Return (exp2, d1, Some err)))
                         | (exp1, None) \<Rightarrow> Inr exp1)
                      else Inr ex) of
                  Inl ret \<Rightarrow> ret
                | Inr exp1 \<Rightarrow>
                    (case incrementNumCompletedTasks exp1 of
                       Panic p \<Rightarrow> Panic p
                     | Return exp2 \<Rightarrow>
                         (case driver_Write E d exp2 of
                            (d1, Some err) \<Rightarrow> Return (exp2, d1, Some err)
                          | (d1, None) \<Rightarrow> runTasks E ts exp2 d1)))))"

definition run ::
  "('f, 't, 'd) engine \<Rightarrow> ('f, 't) Experiment \<Rightarrow> 'd
     \<Rightarrow> (('f, 't) Experiment \<times> 'd \<times> error option) go" where
  "run E ex d =
     (case Result ex of
        None \<Rightarrow> Return (ex, d, Some ErrNilResult)
      | Some r \<Rightarrow>
          (case incrementNumLoops ex of
             Panic p \<Rightarrow> Panic p
           | Return exp1 \<Rightarrow>
               (case driver_Write E d exp1 of
                  (d1, Some err) \<Rightarrow> Return (exp1, d1, Some err)
                | (d1, None) \<Rightarrow> runTasks E (Spec exp1) exp1 d1)))"

section \<open>SLO predicate\<close>

text \<open>
  \<^verbatim>\<open>exp.Result.Insights.SLOsSatisfied.Upper[i][j]\<close> (with \<open>sel = SatUpper\<close>) and the same
  for \<^verbatim>\<open>Lower\<close>: a nil pointer and either index can panic.
\<close>

definition satCell :: "SLOResults option \<Rightarrow> (SLOResults \<Rightarrow> bool list list) \<Rightarrow> int \<Rightarrow> int \<Rightarrow> bool go" where
  "satCell res sel i j =
     (case res of
        None \<Rightarrow> Panic NilDereference
      | Some r \<Rightarrow> (case index (sel r) i of Panic p \<Rightarrow> Panic p | Return row \<Rightarrow> index row j))"

text \<open>
  One inner loop of \<^verbatim>\<open>getSLOsSatisfiedBy\<close> over the SLO indices \<open>is\<close>:
  \<^verbatim>\<open>satThis = satThis && cell; if !satThis { break }\<close>. The cell is only read when
  \<open>satThis\<close> holds.
\<close>

fun sloLoop :: "(int \<Rightarrow> bool go) \<Rightarrow> int list \<Rightarrow> bool \<Rightarrow> bool go" where
  "sloLoop cell [] satThis = Return satThis"
| "sloLoop cell (i # is) satThis =
     (if satThis then
        (case cell i of
           Panic p \<Rightarrow> Panic p
         | Return b \<Rightarrow> (if \<not> b then Return False else sloLoop cell is b))
      else Return False)"

text \<open>The loop \<^verbatim>\<open>for i := 0; i < n; i++\<close> visits \<open>loopIndices n\<close>.\<close>

definition loopIndices :: "nat \<Rightarrow> int list" where
  "loopIndices n = map int [0..<n]"

text \<open>The outer loop of \<^verbatim>\<open>getSLOsSatisfiedBy\<close> over the versions \<open>js\<close>.\<close>

fun versionLoop :: "'f Insights \<Rightarrow> 'f SLOLimits \<Rightarrow> int list \<Rightarrow> int list \<Rightarrow> int list go" where
  "versionLoop ins slos [] sat = Return sat"
| "versionLoop ins slos (j # js) sat =
     (case sloLoop (\<lambda>i. satCell (SLOsSatisfied ins) SatUpper i j)
             (loopIndices (length (elems (Upper slos)))) True of
        Panic p \<Rightarrow> Panic p
      | Return s1 \<Rightarrow>
          (case sloLoop (\<lambda>i. satCell (SLOsSatisfied ins) SatLower i j)
                  (loopIndices (length (elems (Lower slos)))) s1 of
             Panic p \<Rightarrow> Panic p
           | Return satThis \<Rightarrow> versionLoop ins slos js (if satThis then sat @ [j] else sat)))"

text \<open>
  \<^verbatim>\<open>getSLOsSatisfiedBy\<close>: the nil slice of the early returns and the empty slice both
  have length zero, which is all \<^verbatim>\<open>SLOs()\<close> reads; both are \<open>[]\<close>.
\<close>

definition getSLOsSatisfiedBy :: "('f, 't) Experiment option \<Rightarrow> int list go" where
  "getSLOsSatisfiedBy ex =
     (case ex of
        None \<Rightarrow> Return []
      | Some e \<Rightarrow>
          (case Result e of
             None \<Rightarrow> Return []
           | Some r \<Rightarrow>
               (case Insights r of
                  None \<Rightarrow> Return []
                | Some ins \<Rightarrow>
                    (if NumVersions ins = 0 then Return []
                     else
                       (case SLOs ins of
                          None \<Rightarrow> Return (loopIndices (nat (NumVersions ins)))
                        | Some slos \<Rightarrow>
                            versionLoop ins slos (loopIndices (nat (NumVersions ins))) [])))))"

text \<open>The method \<^verbatim>\<open>SLOs()\<close> of \<^verbatim>\<open>*Experiment\<close> (the field \<open>SLOs\<close> has the name).\<close>

definition Experiment_SLOs :: "('f, 't) Experiment option \<Rightarrow> bool go" where
  "Experiment_SLOs ex =
     (case ex of
        None \<Rightarrow> Return False
      | Some e \<Rightarrow>
          (case Result e of
             None \<Rightarrow> Return False
           | Some r \<Rightarrow>
               (case Insights r of
                  None \<Rightarrow> Return False
                | Some ins \<Rightarrow>
                    (case getSLOsSatisfiedBy ex of
                       Panic p \<Rightarrow> Panic p
                     | Return sby \<Rightarrow> Return (NumVersions ins = int (length sby))))))"

section \<open>A concrete library for worked examples\<close>

text \<open>
  The examples below run the model on a concrete library over the reals. It follows the Go
  libraries on the inputs the examples use: \<open>ParseFloat_dec\<close> reads plain decimal
  numerals (digits with an optional fraction; signs, exponents, hexadecimal forms,
  \<^verbatim>\<open>Inf\<close> and \<^verbatim>\<open>NaN\<close>, which \<^verbatim>\<open>strconv.ParseFloat\<close> also accepts, are rejected here),
  \<open>FormatFloat_dec\<close> prints a non-negative value with the digits of its decimal expansion,
  as \<^verbatim>\<open>%v\<close> does for the short decimals below \<open>10^6\<close> that percentiles are, and the
  statistics functions return an error on empty input, as the package documents. Arithmetic
  is exact: rounding, infinities and \<^verbatim>\<open>NaN\<close> are outside this library.
\<close>

definition digitVal :: "char \<Rightarrow> nat option" where
  "digitVal c =
     (let code = (of_char c :: nat) in
      if 48 \<le> code \<and> code \<le> 57 then Some (code - 48) else None)"

fun parseDigits :: "string \<Rightarrow> nat \<Rightarrow> nat option" where
  "parseDigits [] acc = Some acc"
| "parseDigits (c # cs) acc =
     (case digitVal c of None \<Rightarrow> None | Some d \<Rightarrow> parseDigits cs (10 * acc + d))"

definition ParseFloat_dec :: "string \<Rightarrow> real option" where
  "ParseFloat_dec s =
     (let ip = takeWhile (\<lambda>c. c \<noteq> CHR ''.'') s;
          rest = dropWhile (\<lambda>c. c \<noteq> CHR ''.'') s;
          fp = drop 1 rest
      in if ip = [] \<and> fp = [] then None
         else (case (parseDigits ip 0, parseDigits fp 0) of
                 (Some a, Some b) \<Rightarrow> Some (real a + real b / 10 ^ length fp)
               | _ \<Rightarrow> None))"

definition digitChar :: "nat \<Rightarrow> char" where
  "digitChar d = ''0123456789'' ! d"

fun showNat :: "nat \<Rightarrow> string" where
  "showNat n = (if n < 10 then [digitChar n] else showNat (n div 10) @ [digitChar (n mod 10)])"

fun fracDigits :: "nat \<Rightarrow> real \<Rightarrow> string" where
  "fracDigits k r =
     (if k = 0 \<or> r = 0 then []
      else digitChar (nat \<lfloor>10 * r\<rfloor>) # fracDigits (k - 1) (10 * r - real (nat \<lfloor>10 * r\<rfloor>)))"

definition FormatFloat_dec :: "real \<Rightarrow> string" where
  "FormatFloat_dec x =
     (let n = nat \<lfloor>x\<rfloor>; fr = fracDigits 17 (x - real n)
      in showNat n @ (if fr = [] then [] else CHR ''.'' # fr))"

text \<open>
  The pattern \<^verbatim>\<open>decimalRegex\<close> is declared outside \<^verbatim>\<open>experiment.go\<close>; here a decimal
  is digits with an optional fraction, or a fraction alone.
\<close>

definition MatchDecimal_dec :: "string \<Rightarrow> bool" where
  "MatchDecimal_dec b =
     (let ip = takeWhile (\<lambda>c. c \<noteq> CHR ''.'') b;
          rest = dropWhile (\<lambda>c. c \<noteq> CHR ''.'') b;
          fp = drop 1 rest
      in (\<forall>c \<in> set ip. digitVal c \<noteq> None) \<and> (\<forall>c \<in> set fp. digitVal c \<noteq> None) \<and>
         (ip \<noteq> [] \<or> fp \<noteq> []))"

definition Mean_std :: "real list \<Rightarrow> real option" where
  "Mean_std xs = (if xs = [] then None else Some (sum_list xs / real (length xs)))"

definition StandardDeviation_std :: "real list \<Rightarrow> real option" where
  "StandardDeviation_std xs =
     (case Mean_std xs of
        None \<Rightarrow> None
      | Some m \<Rightarrow> Some (sqrt (sum_list (map (\<lambda>x. (x - m) * (x - m)) xs) / real (length xs))))"

definition Min_std :: "real list \<Rightarrow> real option" where
  "Min_std xs = (case xs of [] \<Rightarrow> None | x # ys \<Rightarrow> Some (fold min ys x))"

definition Percentile_std :: "real list \<Rightarrow> real \<Rightarrow> real option" where
  "Percentile_std xs percent =
     (if xs = [] then None
      else if length xs = 1 then Some (hd xs)
      else if percent \<le> 0 \<or> 100 < percent then None
      else
        (let c = sort xs; ix = (percent / 100) * real (length c); k = nat \<lfloor>ix\<rfloor> in
         if ix = real k then Some (c ! (k - 1))
         else if 1 < ix then Some ((c ! (k - 1) + c ! k) / 2)
         else None))"

definition declib :: "real extlib" where
  "declib =
     \<lparr>strconv_ParseFloat = ParseFloat_dec, fmt_Sprint = FormatFloat_dec,
      regexp_MatchDecimal = MatchDecimal_dec, stats_Mean = Mean_std,
      stats_StandardDeviation = StandardDeviation_std, stats_Min = Min_std,
      stats_Percentile = Percentile_std\<rparr>"

text \<open>
  Insights for one version with the maps allocated and no metric yet, the shape that
  \<^verbatim>\<open>initMetrics\<close> allocates.
\<close>

definition oneVersion :: "real Insights" where
  "oneVersion =
     \<lparr>NumVersions = 1, MetricsInfo = Some Map.empty, NonHistMetricValues = [Some Map.empty],
      HistMetricValues = [Some Map.empty], SLOs = None, SLOsSatisfied = None\<rparr>"

section \<open>Specification vocabulary\<close>

text \<open>
  The data model's invariant once the metrics are initialised: the metric maps are allocated
  and both value stores have one entry for each version.
\<close>

definition initialized :: "'f Insights \<Rightarrow> bool" where
  "initialized ins \<longleftrightarrow>
     MetricsInfo ins \<noteq> None \<and>
     length (NonHistMetricValues ins) = nat (NumVersions ins) \<and>
     length (HistMetricValues ins) = nat (NumVersions ins) \<and>
     None \<notin> set (NonHistMetricValues ins) \<and>
     None \<notin> set (HistMetricValues ins)"

text \<open>
  The spec's reading of the type check of \<^verbatim>\<open>updateMetric\<close>: a scalar float for a counter
  or a gauge, a float vector for a sample, a bucket vector for a histogram.
\<close>

datatype shape = ScalarFloat | FloatVector | BucketVector

fun requiredShape :: "MetricType \<Rightarrow> shape option" where
  "requiredShape CounterMetricType = Some ScalarFloat"
| "requiredShape GaugeMetricType = Some ScalarFloat"
| "requiredShape SampleMetricType = Some FloatVector"
| "requiredShape HistogramMetricType = Some BucketVector"
| "requiredShape (OtherMetricType t) = None"

fun dynamicShape :: "'f metric_value \<Rightarrow> shape option" where
  "dynamicShape (Float64 v) = Some ScalarFloat"
| "dynamicShape (Float64Slice vs) = Some FloatVector"
| "dynamicShape (HistBucketSlice bs) = Some BucketVector"
| "dynamicShape Unsupported = None"

definition shapeMatches :: "MetricType \<Rightarrow> 'f metric_value \<Rightarrow> bool" where
  "shapeMatches t val \<longleftrightarrow> requiredShape t \<noteq> None \<and> requiredShape t = dynamicShape val"

text \<open>The name is registered with a meta that is not structurally equal to \<open>mm\<close>.\<close>

definition metaConflict :: "'f Insights \<Rightarrow> string \<Rightarrow> MetricMeta \<Rightarrow> bool" where
  "metaConflict ins nm mm =
     (case map_get (MetricsInfo ins) nm of None \<Rightarrow> False | Some old \<Rightarrow> old \<noteq> mm)"

text \<open>
  The spec's percentile normalisation: a name with the prefix \<^verbatim>\<open>http/latency-p\<close> or
  \<^verbatim>\<open>grpc/latency/p\<close> carries a trailing percent. \<open>percentileToken\<close> splits such a name
  into the prefix and the trailing token.
\<close>

definition stripPrefix :: "string \<Rightarrow> string \<Rightarrow> string option" where
  "stripPrefix p m = (if take (length p) m = p then Some (drop (length p) m) else None)"

definition percentileToken :: "string \<Rightarrow> (string \<times> string) option" where
  "percentileToken m =
     (case stripPrefix ''http/latency-p'' m of
        Some tok \<Rightarrow> Some (''http/latency-p'', tok)
      | None \<Rightarrow>
          (case stripPrefix ''grpc/latency/p'' m of
             Some tok \<Rightarrow> Some (''grpc/latency/p'', tok)
           | None \<Rightarrow> None))"

text \<open>The name carries a trailing token that does not parse as a float.\<close>

definition unparseablePercentile :: "'f extlib \<Rightarrow> string \<Rightarrow> bool" where
  "unparseablePercentile L m =
     (case percentileToken m of
        None \<Rightarrow> False
      | Some (p, tok) \<Rightarrow> strconv_ParseFloat L tok = None)"

text \<open>
  The canonical form of a name: the trailing token is parsed as a float and printed again
  after the prefix; a name without a percentile is canonical as it is.
\<close>

definition canonicalName :: "'f extlib \<Rightarrow> string \<Rightarrow> string" where
  "canonicalName L m =
     (case percentileToken m of
        None \<Rightarrow> m
      | Some (p, tok) \<Rightarrow>
          (case strconv_ParseFloat L tok of None \<Rightarrow> m | Some x \<Rightarrow> p @ fmt_Sprint L x))"

text \<open>The four failure conditions that the spec lists for \<^verbatim>\<open>updateMetric\<close>.\<close>

definition updateMetricFails ::
  "'f extlib \<Rightarrow> 'f Insights \<Rightarrow> string \<Rightarrow> MetricMeta \<Rightarrow> int \<Rightarrow> 'f metric_value \<Rightarrow> bool" where
  "updateMetricFails L ins m mm i val \<longleftrightarrow>
     NumVersions ins \<le> i \<or>
     \<not> shapeMatches (Type mm) val \<or>
     metaConflict ins (canonicalName L m) mm \<or>
     unparseablePercentile L m"

text \<open>The observations stored for version \<open>i\<close> under the name \<open>nm\<close>.\<close>

definition observations :: "'f Insights \<Rightarrow> int \<Rightarrow> string \<Rightarrow> 'f list" where
  "observations ins i nm =
     (case map_get (NonHistMetricValues ins ! nat i) nm of None \<Rightarrow> [] | Some xs \<Rightarrow> xs)"

definition buckets :: "'f Insights \<Rightarrow> int \<Rightarrow> string \<Rightarrow> 'f HistBucket list" where
  "buckets ins i nm =
     (case map_get (HistMetricValues ins ! nat i) nm of None \<Rightarrow> [] | Some xs \<Rightarrow> xs)"

text \<open>The meta is registered under \<open>nm\<close> and the value is appended for version \<open>i\<close>.\<close>

definition registeredAndAppended ::
  "'f Insights \<Rightarrow> 'f Insights \<Rightarrow> string \<Rightarrow> MetricMeta \<Rightarrow> int \<Rightarrow> 'f metric_value \<Rightarrow> bool" where
  "registeredAndAppended ins ins' nm mm i val \<longleftrightarrow>
     map_get (MetricsInfo ins') nm = Some mm \<and>
     (case val of
        Float64 v \<Rightarrow> observations ins' i nm = observations ins i nm @ [v]
      | Float64Slice vs \<Rightarrow> observations ins' i nm = observations ins i nm @ vs
      | HistBucketSlice bs \<Rightarrow> buckets ins' i nm = buckets ins i nm @ bs
      | Unsupported \<Rightarrow> False)"

text \<open>A gauge, and the insights after the update of the spec's round-trip scenario.\<close>

definition gaugeMeta :: MetricMeta where
  "gaugeMeta = \<lparr>Description = ''latency'', Units = Some ''msec'', Type = GaugeMetricType\<rparr>"

definition afterUpdate :: "real Insights" where
  "afterUpdate =
     \<lparr>NumVersions = 1,
      MetricsInfo = Some [''http/latency-p95'' \<mapsto> gaugeMeta],
      NonHistMetricValues = [Some [''http/latency-p95'' \<mapsto> [12.5]]],
      HistMetricValues = [Some Map.empty], SLOs = None, SLOsSatisfied = None\<rparr>"

text \<open>
  The data model's invariant on the satisfaction matrices: one row for each SLO, one cell in
  each row for each version.
\<close>

definition sloMatricesSized :: "'f Insights \<Rightarrow> 'f SLOLimits \<Rightarrow> SLOResults \<Rightarrow> bool" where
  "sloMatricesSized ins slos res \<longleftrightarrow>
     length (SatUpper res) = length (elems (Upper slos)) \<and>
     length (SatLower res) = length (elems (Lower slos)) \<and>
     (\<forall>row \<in> set (SatUpper res). length row = nat (NumVersions ins)) \<and>
     (\<forall>row \<in> set (SatLower res). length row = nat (NumVersions ins))"

text \<open>Every version satisfies every configured SLO, upper and lower.\<close>

definition everyVersionSatisfiesEverySLO :: "'f Insights \<Rightarrow> 'f SLOLimits \<Rightarrow> SLOResults \<Rightarrow> bool" where
  "everyVersionSatisfiesEverySLO ins slos res \<longleftrightarrow>
     (\<forall>j < nat (NumVersions ins).
        (\<forall>i < length (elems (Upper slos)). SatUpper res ! i ! j) \<and>
        (\<forall>i < length (elems (Lower slos)). SatLower res ! i ! j))"

text \<open>An experiment whose insights record no version, and no SLO.\<close>

definition zeroVersions :: "(real, unit) Experiment" where
  "zeroVersions =
     \<lparr>Spec = [],
      Result = Some \<lparr>Revision = 0, StartTime = 0, NumLoops = 1, NumCompletedTasks = 0,
        Failure = False,
        Insights = Some \<lparr>NumVersions = 0, MetricsInfo = Some Map.empty, NonHistMetricValues = [],
          HistMetricValues = [], SLOs = None, SLOsSatisfied = None\<rparr>,
        Iter8Version = ''0.8''\<rparr>\<rparr>"

text \<open>
  An experiment with two versions, one upper and one lower SLO; the second version misses the
  lower one.
\<close>

definition twoVersionsInsights :: "real Insights" where
  "twoVersionsInsights =
     \<lparr>NumVersions = 2, MetricsInfo = Some Map.empty,
      NonHistMetricValues = [Some Map.empty, Some Map.empty],
      HistMetricValues = [Some Map.empty, Some Map.empty],
      SLOs = Some \<lparr>Upper = Some [\<lparr>Metric = ''http/error-rate'', Limit = 0\<rparr>],
                   Lower = Some [\<lparr>Metric = ''grpc/latency/mean'', Limit = 10\<rparr>]\<rparr>,
      SLOsSatisfied = Some \<lparr>SatUpper = [[True, True]], SatLower = [[True, False]]\<rparr>\<rparr>"

definition twoVersionsResult :: "real ExperimentResult" where
  "twoVersionsResult =
     \<lparr>Revision = 0, StartTime = 0, NumLoops = 1, NumCompletedTasks = 0,
      Failure = False, Insights = Some twoVersionsInsights, Iter8Version = ''0.8''\<rparr>"

definition twoVersions :: "(real, unit) Experiment" where
  "twoVersions = \<lparr>Spec = [], Result = Some twoVersionsResult\<rparr>"

text \<open>
  The statistics package documents an error for empty input in each of the four functions that
  \<^verbatim>\<open>getSampleAggregation\<close> calls.
\<close>

definition statsFailOnEmpty :: "'f extlib \<Rightarrow> bool" where
  "statsFailOnEmpty L \<longleftrightarrow>
     stats_Mean L [] = None \<and> stats_StandardDeviation L [] = None \<and> stats_Min L [] = None \<and>
     (\<forall>percent. stats_Percentile L [] percent = None)"

text \<open>One version with the sample metric \<^verbatim>\<open>grpc/latency\<close> and the observations 1 and 3.\<close>

definition sampleMeta :: MetricMeta where
  "sampleMeta = \<lparr>Description = ''latency sample'', Units = Some ''msec'', Type = SampleMetricType\<rparr>"

definition sampleInsights :: "real Insights" where
  "sampleInsights =
     \<lparr>NumVersions = 1,
      MetricsInfo = Some [''grpc/latency'' \<mapsto> sampleMeta],
      NonHistMetricValues = [Some [''grpc/latency'' \<mapsto> [1, 3]]],
      HistMetricValues = [Some Map.empty], SLOs = None, SLOsSatisfied = None\<rparr>"

definition errorRateLimits :: "real SLOLimits" where
  "errorRateLimits = \<lparr>Upper = Some [\<lparr>Metric = ''http/error-rate'', Limit = 0\<rparr>], Lower = None\<rparr>"

text \<open>
  What the engine does with a task that has run without error: the counter of completed tasks
  is incremented, the experiment is written through the driver and, unless the write fails,
  the loop goes on with the remaining tasks.
\<close>

definition completeTask ::
  "('f, 't, 'd) engine \<Rightarrow> 't list \<Rightarrow> ('f, 't) Experiment \<Rightarrow> 'd
     \<Rightarrow> (('f, 't) Experiment \<times> 'd \<times> error option) go" where
  "completeTask E ts ex d =
     (case Result ex of
        None \<Rightarrow> Panic NilDereference
      | Some r \<Rightarrow>
          (let ex' = ex\<lparr>Result := Some (r\<lparr>NumCompletedTasks := incr (NumCompletedTasks r)\<rparr>)\<rparr> in
           case driver_Write E d ex' of
             (d1, Some err) \<Rightarrow> Return (ex', d1, Some err)
           | (d1, None) \<Rightarrow> runTasks E ts ex' d1))"

text \<open>
  An engine for the examples. A task is its \<^verbatim>\<open>TaskMeta\<close>; the inline script
  \<^verbatim>\<open>exit 1\<close> fails and every other task succeeds without touching the experiment; the
  predicate \<^verbatim>\<open>SLOs()\<close> is the method of the experiment and nothing else compiles; the driver
  keeps every experiment written, in order.
\<close>

definition memEngine :: "(real, TaskMeta, (real, TaskMeta) Experiment list) engine" where
  "memEngine =
     \<lparr>task_meta = (\<lambda>t. t),
      task_run = (\<lambda>t ex. if Run t = Some ''exit 1'' then (ex, Some (ErrExternal ''exit status 1''))
                          else (ex, None)),
      expr_eval = (\<lambda>c ex. if c = ''SLOs()'' then
                              (case Experiment_SLOs (Some ex) of
                                 Panic p \<Rightarrow> RunError (ErrExternal ''panic'')
                               | Return b \<Rightarrow> Output b)
                            else CompileError (ErrExternal c)),
      driver_Write = (\<lambda>d ex. (d @ [ex], None))\<rparr>"

definition guardedTask :: TaskMeta where
  "guardedTask = \<lparr>Task = None, Run = Some ''exit 1'', IfCond = Some ''SLOs()''\<rparr>"

definition echoTask :: TaskMeta where
  "echoTask = \<lparr>Task = None, Run = Some ''echo ok'', IfCond = None\<rparr>"

text \<open>The two-version result, in which \<^verbatim>\<open>SLOs()\<close> is false, with one guarded task.\<close>

definition guardedExperiment :: "(real, TaskMeta) Experiment" where
  "guardedExperiment = \<lparr>Spec = [guardedTask], Result = Some twoVersionsResult\<rparr>"

definition guardedExperimentDone :: "(real, TaskMeta) Experiment" where
  "guardedExperimentDone =
     \<lparr>Spec = [guardedTask], Result = Some (twoVersionsResult\<lparr>NumCompletedTasks := 1\<rparr>)\<rparr>"

declare showNat.simps [simp del] fracDigits.simps [simp del]

section \<open>Metric-name normalisation\<close>

lemmas name_defs = preHTTP_def preGRPC_def httpMetricPrefix_def
  builtInHTTPLatencyPercentilePrefix_def gRPCMetricPrefix_def gRPCLatencySampleMetricName_def
  PercentileAggregatorPrefix_def

lemmas declib_defs = declib_def ParseFloat_dec_def digitVal_def FormatFloat_dec_def
  showNat.simps digitChar_def fracDigits.simps MatchDecimal_dec_def Mean_std_def
  StandardDeviation_std_def Min_std_def Percentile_std_def

lemma percentilePrefix_cases:
  "percentilePrefix m = [] \<and> \<not> HasPrefix m preHTTP \<and> \<not> HasPrefix m preGRPC
   \<or> percentilePrefix m = preHTTP \<and> HasPrefix m preHTTP
   \<or> percentilePrefix m = preGRPC \<and> HasPrefix m preGRPC \<and> \<not> HasPrefix m preHTTP"
  by (auto simp: percentilePrefix_def)

lemma HasPrefix_append [simp]: "HasPrefix (p @ s) p"
  by (simp add: HasPrefix_def)

lemma TrimPrefix_append [simp]: "TrimPrefix (p @ s) p = s"
  by (simp add: TrimPrefix_def)

lemma not_HTTP_GRPC [simp]: "\<not> HasPrefix (preGRPC @ s) preHTTP"
  by (simp add: HasPrefix_def name_defs)

lemma percentilePrefix_HTTP [simp]: "percentilePrefix (preHTTP @ s) = preHTTP"
  by (simp add: percentilePrefix_def)

lemma percentilePrefix_GRPC [simp]: "percentilePrefix (preGRPC @ s) = preGRPC"
  by (simp add: percentilePrefix_def)

lemma pre_nonempty [simp]: "preHTTP \<noteq> []" "preGRPC \<noteq> []"
  by (simp_all add: name_defs)

lemma Normalize_http_p95_00:
  "NormalizeMetricName declib ''http/latency-p95.00'' = (''http/latency-p95'', None)"
  by (simp add: NormalizeMetricName_def percentilePrefix_def HasPrefix_def TrimPrefix_def
      name_defs declib_defs)

lemma Normalize_http_p95:
  "NormalizeMetricName declib ''http/latency-p95'' = (''http/latency-p95'', None)"
  by (simp add: NormalizeMetricName_def percentilePrefix_def HasPrefix_def TrimPrefix_def
      name_defs declib_defs)

text \<open>
  C9. \<^verbatim>\<open>NormalizeMetricName\<close> is idempotent: whenever it succeeds on \<open>m\<close> with the name
  \<open>nm\<close>, it succeeds on \<open>nm\<close> and returns \<open>nm\<close> again. The one fact used about the
  libraries is that the percent parsed from \<open>m\<close>, printed with \<^verbatim>\<open>%v\<close>, parses back to
  itself, which \<^verbatim>\<open>strconv\<close> promises of the shortest representation that \<^verbatim>\<open>%v\<close> prints.
\<close>

theorem NormalizeMetricName_idempotent:
  assumes ok: "NormalizeMetricName L m = (nm, None)"
    and reparse: "\<And>x. strconv_ParseFloat L (TrimPrefix m (percentilePrefix m)) = Some x
                   \<Longrightarrow> strconv_ParseFloat L (fmt_Sprint L x) = Some x"
  shows "NormalizeMetricName L nm = (nm, None)"
proof (cases "percentilePrefix m = []")
  case True
  with ok have "nm = m" by (simp add: NormalizeMetricName_def)
  with ok show ?thesis by simp
next
  case False
  then obtain x where px: "strconv_ParseFloat L (TrimPrefix m (percentilePrefix m)) = Some x"
    and nm: "nm = percentilePrefix m @ fmt_Sprint L x"
    using ok by (auto simp: NormalizeMetricName_def Let_def split: option.splits)
  from False percentilePrefix_cases [of m]
  have "percentilePrefix m = preHTTP \<or> percentilePrefix m = preGRPC" by auto
  then have pp: "percentilePrefix nm = percentilePrefix m" using nm by auto
  have "TrimPrefix nm (percentilePrefix nm) = fmt_Sprint L x"
    using pp nm by simp
  with reparse [OF px] pp False nm show ?thesis
    by (simp add: NormalizeMetricName_def Let_def)
qed

theorem NormalizeMetricName_idempotent_witness:
  "NormalizeMetricName declib ''http/latency-p95.00'' = (''http/latency-p95'', None)
   \<and> strconv_ParseFloat declib (fmt_Sprint declib 95) = Some 95
   \<and> NormalizeMetricName declib ''http/latency-p95'' = (''http/latency-p95'', None)"
proof -
  have re: "strconv_ParseFloat declib (fmt_Sprint declib x) = Some x"
    if "strconv_ParseFloat declib (TrimPrefix ''http/latency-p95.00''
          (percentilePrefix ''http/latency-p95.00'')) = Some x" for x
  proof -
    from that have "x = 95"
      by (simp add: percentilePrefix_def HasPrefix_def TrimPrefix_def name_defs declib_defs)
    then show ?thesis by (simp add: declib_defs)
  qed
  have "strconv_ParseFloat declib (fmt_Sprint declib 95) = Some 95"
    by (simp add: declib_defs)
  with NormalizeMetricName_idempotent [OF Normalize_http_p95_00 re] Normalize_http_p95_00
  show ?thesis by simp
qed

section \<open>Updating and reading metrics\<close>

lemma metricTypeMatch_shape: "metricTypeMatch t val = shapeMatches t val"
  by (cases t; cases val) (simp_all add: metricTypeMatch_def shapeMatches_def)

lemma initialized_index:
  assumes "initialized ins" "0 \<le> i" "i < NumVersions ins"
  shows "\<exists>f g h. MetricsInfo ins = Some f
            \<and> index (NonHistMetricValues ins) i = Return (Some g)
            \<and> NonHistMetricValues ins ! nat i = Some g
            \<and> index (HistMetricValues ins) i = Return (Some h)
            \<and> HistMetricValues ins ! nat i = Some h
            \<and> nat i < length (NonHistMetricValues ins)
            \<and> nat i < length (HistMetricValues ins)"
proof -
  from assms have a: "nat i < length (NonHistMetricValues ins)" "nat i < length (HistMetricValues ins)"
    by (auto simp: initialized_def)
  then have "NonHistMetricValues ins ! nat i \<in> set (NonHistMetricValues ins)"
    "HistMetricValues ins ! nat i \<in> set (HistMetricValues ins)" by simp_all
  moreover from assms have "None \<notin> set (NonHistMetricValues ins)" "None \<notin> set (HistMetricValues ins)"
    by (simp_all add: initialized_def)
  ultimately have "NonHistMetricValues ins ! nat i \<noteq> None" "HistMetricValues ins ! nat i \<noteq> None"
    by metis+
  then obtain g h where "NonHistMetricValues ins ! nat i = Some g" "HistMetricValues ins ! nat i = Some h"
    by auto
  moreover from assms obtain f where "MetricsInfo ins = Some f"
    by (auto simp: initialized_def)
  moreover from a assms(2) have "i < int (length (NonHistMetricValues ins))"
    "i < int (length (HistMetricValues ins))" by linarith+
  ultimately show ?thesis
    using assms(2) a by (simp add: index_def)
qed

lemma percentileToken_cases:
  "percentileToken m = None \<and> percentilePrefix m = []
   \<or> percentileToken m = Some (percentilePrefix m, TrimPrefix m (percentilePrefix m))
       \<and> percentilePrefix m \<noteq> []"
  by (simp add: percentileToken_def stripPrefix_def percentilePrefix_def HasPrefix_def
      TrimPrefix_def name_defs)

lemma NormalizeMetricName_spec:
  "NormalizeMetricName L m =
     (canonicalName L m, if unparseablePercentile L m then Some ErrCannotExtractPercent else None)"
  using percentileToken_cases [of m]
  by (auto simp: NormalizeMetricName_def canonicalName_def unparseablePercentile_def Let_def
      split: option.splits)

lemma updateMetric_fails:
  assumes "updateMetricFails L ins m mm i val"
  shows "\<exists>err. updateMetric L ins m mm i val = Return (ins, Some err)"
  using assms
  by (auto simp: updateMetricFails_def updateMetric_def metricTypeMatch_shape metaConflict_def
      registerMetric_def NormalizeMetricName_spec split: option.splits)

lemma updateMetric_succeeds:
  assumes init: "initialized ins" and i0: "0 \<le> i"
    and ok: "\<not> updateMetricFails L ins m mm i val"
  shows "\<exists>ins'. updateMetric L ins m mm i val = Return (ins', None)
           \<and> registeredAndAppended ins ins' (canonicalName L m) mm i val"
proof -
  define nm where "nm = canonicalName L m"
  have nm: "NormalizeMetricName L m = (nm, None)"
    using ok by (simp add: NormalizeMetricName_spec updateMetricFails_def nm_def)
  from ok have lt: "i < NumVersions ins" and sh: "shapeMatches (Type mm) val"
    and nc: "\<not> metaConflict ins nm mm"
    by (auto simp: updateMetricFails_def nm_def)
  from initialized_index [OF init i0 lt] obtain f g h where
    f: "MetricsInfo ins = Some f"
    and g: "index (NonHistMetricValues ins) i = Return (Some g)" "NonHistMetricValues ins ! nat i = Some g"
    and h: "index (HistMetricValues ins) i = Return (Some h)" "HistMetricValues ins ! nat i = Some h"
    and len: "nat i < length (NonHistMetricValues ins)" "nat i < length (HistMetricValues ins)"
    by blast
  have reg: "registerMetric ins nm mm = Return (ins\<lparr>MetricsInfo := Some (f(nm \<mapsto> mm))\<rparr>, None)"
    using nc f by (auto simp: registerMetric_def metaConflict_def map_get_def map_set_def split: option.splits)
  have "\<exists>ins'. updateMetric L ins m mm i val = Return (ins', None)
           \<and> registeredAndAppended ins ins' nm mm i val"
  proof (cases val)
    case (Float64 v)
    with sh have "Type mm = CounterMetricType \<or> Type mm = GaugeMetricType"
      by (cases "Type mm") (auto simp: shapeMatches_def)
    then show ?thesis
      using Float64 nm lt sh reg g len
      by (auto simp: updateMetric_def metricTypeMatch_shape updateMetricValueScalar_def
          map_set_def map_get_def registeredAndAppended_def observations_def)
  next
    case (Float64Slice vs)
    with sh have "Type mm = SampleMetricType"
      by (cases "Type mm") (auto simp: shapeMatches_def)
    then show ?thesis
      using Float64Slice nm lt sh reg g len
      by (auto simp: updateMetric_def metricTypeMatch_shape updateMetricValueVector_def
          map_set_def map_get_def registeredAndAppended_def observations_def)
  next
    case (HistBucketSlice bs)
    with sh have "Type mm = HistogramMetricType"
      by (cases "Type mm") (auto simp: shapeMatches_def)
    then show ?thesis
      using HistBucketSlice nm lt sh reg h len
      by (auto simp: updateMetric_def metricTypeMatch_shape updateMetricValueHist_def
          map_set_def map_get_def registeredAndAppended_def buckets_def)
  next
    case Unsupported
    with sh show ?thesis by (auto simp: shapeMatches_def)
  qed
  then show ?thesis by (simp add: nm_def)
qed

text \<open>
  C4. On initialised insights and for a version index that is not negative,
  \<^verbatim>\<open>updateMetric\<close> returns an error exactly when the version index is at least
  \<open>NumVersions\<close>, or the shape of the value does not match the type of the meta, or the
  canonical name is registered with a different meta, or the name carries a percentile that
  does not parse; the insights are then unchanged. In every other case it returns no error,
  the meta is registered under the canonical name and the value is appended for the version.
  The canonical name and the unparseable percentile are the spec's: prefix
  \<^verbatim>\<open>http/latency-p\<close> or \<^verbatim>\<open>grpc/latency/p\<close>, trailing token parsed as a float and printed
  again.
\<close>

theorem updateMetric_error_iff:
  assumes "initialized ins" and "0 \<le> i"
  shows "((\<exists>ins' err. updateMetric L ins m mm i val = Return (ins', Some err))
            \<longleftrightarrow> updateMetricFails L ins m mm i val)
       \<and> (updateMetricFails L ins m mm i val
            \<longrightarrow> (\<exists>err. updateMetric L ins m mm i val = Return (ins, Some err)))
       \<and> (\<not> updateMetricFails L ins m mm i val
            \<longrightarrow> (\<exists>ins'. updateMetric L ins m mm i val = Return (ins', None)
                   \<and> registeredAndAppended ins ins' (canonicalName L m) mm i val))"
  using updateMetric_fails [of L ins m mm i val] updateMetric_succeeds [OF assms, of L m mm val]
  by fastforce

lemma updateMetric_p95:
  "updateMetric declib oneVersion ''http/latency-p95.00'' gaugeMeta 0 (Float64 12.5)
     = Return (afterUpdate, None)"
  by (simp add: updateMetric_def metricTypeMatch_def gaugeMeta_def oneVersion_def
      Normalize_http_p95_00 registerMetric_def map_get_def map_set_def
      updateMetricValueScalar_def index_def afterUpdate_def)

lemma initialized_oneVersion: "initialized oneVersion"
  by (simp add: initialized_def oneVersion_def)

lemma initialized_afterUpdate: "initialized afterUpdate"
  by (simp add: initialized_def afterUpdate_def)

lemmas spec_name_defs = percentileToken_def stripPrefix_def unparseablePercentile_def
  canonicalName_def

lemma canonicalName_p95_00: "canonicalName declib ''http/latency-p95.00'' = ''http/latency-p95''"
  by (simp add: spec_name_defs declib_defs)

lemma canonicalName_p95_0: "canonicalName declib ''http/latency-p95.0'' = ''http/latency-p95''"
  by (simp add: spec_name_defs declib_defs)

lemma parseable_p95_00: "\<not> unparseablePercentile declib ''http/latency-p95.00''"
  by (simp add: spec_name_defs declib_defs)

lemma unparseable_pxx: "unparseablePercentile declib ''http/latency-pxx''"
  by (simp add: spec_name_defs declib_defs)

lemma not_fails_p95:
  "\<not> updateMetricFails declib oneVersion ''http/latency-p95.00'' gaugeMeta 0 (Float64 12.5)"
  by (simp add: updateMetricFails_def canonicalName_p95_00 parseable_p95_00 shapeMatches_def
      gaugeMeta_def metaConflict_def map_get_def oneVersion_def)

lemma conflict_p95_0:
  "metaConflict afterUpdate (canonicalName declib ''http/latency-p95.0'') sampleMeta"
  by (simp add: canonicalName_p95_0 metaConflict_def map_get_def afterUpdate_def gaugeMeta_def
      sampleMeta_def)

lemma shape_mismatch_gauge: "\<not> shapeMatches (Type gaugeMeta) (Float64Slice [12.5 :: real])"
  by (simp add: shapeMatches_def gaugeMeta_def)

theorem updateMetric_error_iff_witness:
  "initialized oneVersion \<and> initialized afterUpdate \<and> (0::int) \<le> 0
   \<and> canonicalName declib ''http/latency-p95.00'' = ''http/latency-p95''
   \<and> (\<exists>ins'. updateMetric declib oneVersion ''http/latency-p95.00'' gaugeMeta 0 (Float64 12.5)
                = Return (ins', None)
         \<and> registeredAndAppended oneVersion ins' ''http/latency-p95'' gaugeMeta 0 (Float64 12.5))
   \<and> NumVersions oneVersion \<le> 1
   \<and> (\<exists>err. updateMetric declib oneVersion ''http/latency-p95.00'' gaugeMeta 1 (Float64 12.5)
                = Return (oneVersion, Some err))
   \<and> \<not> shapeMatches (Type gaugeMeta) (Float64Slice [12.5 :: real])
   \<and> (\<exists>err. updateMetric declib oneVersion ''http/latency-p95.00'' gaugeMeta 0 (Float64Slice [12.5])
                = Return (oneVersion, Some err))
   \<and> metaConflict afterUpdate (canonicalName declib ''http/latency-p95.0'') sampleMeta
   \<and> (\<exists>err. updateMetric declib afterUpdate ''http/latency-p95.0'' sampleMeta 0 (Float64Slice [12.5])
                = Return (afterUpdate, Some err))
   \<and> unparseablePercentile declib ''http/latency-pxx''
   \<and> (\<exists>err. updateMetric declib oneVersion ''http/latency-pxx'' gaugeMeta 0 (Float64 12.5)
                = Return (oneVersion, Some err))"
proof -
  have z: "(0::int) \<le> 0" and o: "(0::int) \<le> 1" by simp_all
  have n: "NumVersions oneVersion \<le> 1" by (simp add: oneVersion_def)
  from updateMetric_error_iff [OF initialized_oneVersion z] not_fails_p95
  have "\<exists>ins'. updateMetric declib oneVersion ''http/latency-p95.00'' gaugeMeta 0 (Float64 12.5)
                = Return (ins', None)
         \<and> registeredAndAppended oneVersion ins'
              (canonicalName declib ''http/latency-p95.00'') gaugeMeta 0 (Float64 12.5)"
    by blast
  then have a: "\<exists>ins'. updateMetric declib oneVersion ''http/latency-p95.00'' gaugeMeta 0 (Float64 12.5)
                = Return (ins', None)
         \<and> registeredAndAppended oneVersion ins' ''http/latency-p95'' gaugeMeta 0 (Float64 12.5)"
    by (simp add: canonicalName_p95_00)
  from n have "updateMetricFails declib oneVersion ''http/latency-p95.00'' gaugeMeta 1 (Float64 12.5)"
    by (simp add: updateMetricFails_def)
  with updateMetric_error_iff [OF initialized_oneVersion o]
  have b: "\<exists>err. updateMetric declib oneVersion ''http/latency-p95.00'' gaugeMeta 1 (Float64 12.5)
                = Return (oneVersion, Some err)"
    by blast
  from shape_mismatch_gauge
  have "updateMetricFails declib oneVersion ''http/latency-p95.00'' gaugeMeta 0 (Float64Slice [12.5])"
    by (simp add: updateMetricFails_def)
  with updateMetric_error_iff [OF initialized_oneVersion z]
  have c: "\<exists>err. updateMetric declib oneVersion ''http/latency-p95.00'' gaugeMeta 0 (Float64Slice [12.5])
                = Return (oneVersion, Some err)"
    by blast
  from conflict_p95_0
  have "updateMetricFails declib afterUpdate ''http/latency-p95.0'' sampleMeta 0 (Float64Slice [12.5])"
    by (simp add: updateMetricFails_def)
  with updateMetric_error_iff [OF initialized_afterUpdate z]
  have d: "\<exists>err. updateMetric declib afterUpdate ''http/latency-p95.0'' sampleMeta 0 (Float64Slice [12.5])
                = Return (afterUpdate, Some err)"
    by blast
  from unparseable_pxx
  have "updateMetricFails declib oneVersion ''http/latency-pxx'' gaugeMeta 0 (Float64 12.5)"
    by (simp add: updateMetricFails_def)
  with updateMetric_error_iff [OF initialized_oneVersion z]
  have e: "\<exists>err. updateMetric declib oneVersion ''http/latency-pxx'' gaugeMeta 0 (Float64 12.5)
                = Return (oneVersion, Some err)"
    by blast
  from initialized_oneVersion initialized_afterUpdate z canonicalName_p95_00 a n b
    shape_mismatch_gauge c conflict_p95_0 d unparseable_pxx e
  show ?thesis by blast
qed

text \<open>
  The errors of the four failing calls above, run on the code: each is the error of the
  condition that fails.
\<close>

lemma updateMetric_errors:
  "updateMetric declib oneVersion ''http/latency-p95.00'' gaugeMeta 1 (Float64 12.5)
     = Return (oneVersion, Some ErrInsufficientVersions)"
  "updateMetric declib oneVersion ''http/latency-p95.00'' gaugeMeta 0 (Float64Slice [12.5])
     = Return (oneVersion, Some ErrIncompatible)"
  "updateMetric declib afterUpdate ''http/latency-p95.0'' sampleMeta 0 (Float64Slice [12.5])
     = Return (afterUpdate, Some ErrMetaDiffer)"
  "updateMetric declib oneVersion ''http/latency-pxx'' gaugeMeta 0 (Float64 12.5)
     = Return (oneVersion, Some ErrCannotExtractPercent)"
  by (simp_all add: updateMetric_def metricTypeMatch_def gaugeMeta_def sampleMeta_def
      oneVersion_def afterUpdate_def NormalizeMetricName_def percentilePrefix_def HasPrefix_def
      TrimPrefix_def name_defs declib_defs registerMetric_def map_get_def)

lemma registerMetric_ok:
  assumes "registerMetric ins nm mm = Return (ins1, None)"
  shows "\<exists>f. MetricsInfo ins = Some f \<and> ins1 = ins\<lparr>MetricsInfo := Some (f(nm \<mapsto> mm))\<rparr>"
proof (cases "MetricsInfo ins")
  case None
  with assms show ?thesis
    by (simp add: registerMetric_def map_get_def map_set_def)
next
  case (Some f)
  with assms show ?thesis
    by (cases "f nm") (auto simp: registerMetric_def map_get_def map_set_def split: if_splits)
qed

lemma updateMetricValueScalar_ok:
  assumes "updateMetricValueScalar ins1 nm i v = Return ins2"
  shows "0 \<le> i \<and> i < int (length (NonHistMetricValues ins1)) \<and>
   (\<exists>g. NonHistMetricValues ins1 ! nat i = Some g \<and>
        ins2 = ins1\<lparr>NonHistMetricValues := (NonHistMetricValues ins1)
                 [nat i := Some (g(nm \<mapsto> (case g nm of None \<Rightarrow> [] | Some old \<Rightarrow> old) @ [v]))]\<rparr>)"
proof -
  from assms have r: "0 \<le> i \<and> i < int (length (NonHistMetricValues ins1))"
    by (cases "0 \<le> i \<and> i < int (length (NonHistMetricValues ins1))")
      (simp_all add: updateMetricValueScalar_def index_def)
  then have ix: "index (NonHistMetricValues ins1) i = Return (NonHistMetricValues ins1 ! nat i)"
    by (simp add: index_def)
  show ?thesis
  proof (cases "NonHistMetricValues ins1 ! nat i")
    case None
    with assms ix show ?thesis
      by (simp add: updateMetricValueScalar_def map_set_def)
  next
    case (Some g)
    with assms ix r show ?thesis
      by (auto simp: updateMetricValueScalar_def map_set_def map_get_def)
  qed
qed

text \<open>
  C5. Round trip of update and resolution: after \<^verbatim>\<open>updateMetric\<close> has stored the float
  \<open>v\<close> for version \<open>i\<close> under the name \<open>m\<close> without error (the meta is then a
  counter or a gauge), \<^verbatim>\<open>ScalarMetricValue\<close> for version \<open>i\<close> and any two-segment name
  \<open>m'\<close> that normalises to the same canonical name returns \<open>v\<close>, the last observation.
\<close>

theorem update_then_read:
  assumes upd: "updateMetric L ins m mm i (Float64 v) = Return (ins', None)"
    and two: "length (Split m' CHR ''/'') = 2"
    and same: "NormalizeMetricName L m' = (fst (NormalizeMetricName L m), None)"
  shows "ScalarMetricValue L ins' i m' = Return (Some v)"
proof -
  obtain nm where nm: "NormalizeMetricName L m = (nm, None)"
    using upd by (auto simp: updateMetric_def split: if_splits prod.splits option.splits)
  have ty: "Type mm = CounterMetricType \<or> Type mm = GaugeMetricType"
    using upd by (auto simp: updateMetric_def metricTypeMatch_def split: if_splits)
  obtain ins1 where reg: "registerMetric ins nm mm = Return (ins1, None)"
    and sc: "updateMetricValueScalar ins1 nm i v = Return ins'"
    using upd nm ty
    by (auto simp: updateMetric_def metricTypeMatch_def split: if_splits go.splits option.splits)
  from registerMetric_ok [OF reg] obtain f where
    f: "MetricsInfo ins = Some f" "ins1 = ins\<lparr>MetricsInfo := Some (f(nm \<mapsto> mm))\<rparr>" by blast
  from updateMetricValueScalar_ok [OF sc] obtain g where
    i: "0 \<le> i" "i < int (length (NonHistMetricValues ins1))"
    and g: "NonHistMetricValues ins1 ! nat i = Some g"
    and ins': "ins' = ins1\<lparr>NonHistMetricValues := (NonHistMetricValues ins1)
                 [nat i := Some (g(nm \<mapsto> (case g nm of None \<Rightarrow> [] | Some old \<Rightarrow> old) @ [v]))]\<rparr>"
    by blast
  have "getCounterOrGaugeMetricFromValuesMap ins' i nm = Return (Some v)"
    using ty i f ins'
    by (auto simp: getCounterOrGaugeMetricFromValuesMap_def map_get_def index_def Let_def)
  with two same nm show ?thesis
    by (simp add: ScalarMetricValue_def)
qed


theorem update_then_read_witness:
  "updateMetric declib oneVersion ''http/latency-p95.00'' gaugeMeta 0 (Float64 12.5)
     = Return (afterUpdate, None)
   \<and> length (Split ''http/latency-p95'' CHR ''/'') = 2
   \<and> NormalizeMetricName declib ''http/latency-p95''
       = (fst (NormalizeMetricName declib ''http/latency-p95.00''), None)
   \<and> ScalarMetricValue declib afterUpdate 0 ''http/latency-p95'' = Return (Some 12.5)"
proof -
  have two: "length (Split ''http/latency-p95'' CHR ''/'') = 2" by simp
  have same: "NormalizeMetricName declib ''http/latency-p95''
       = (fst (NormalizeMetricName declib ''http/latency-p95.00''), None)"
    by (simp add: Normalize_http_p95 Normalize_http_p95_00)
  from update_then_read [OF updateMetric_p95 two same] updateMetric_p95 two same
  show ?thesis by blast
qed

section \<open>The SLO predicate\<close>

lemma sloLoop_all:
  "\<forall>i \<in> set is. cell i = Return (f i) \<Longrightarrow> sloLoop cell is s = Return (s \<and> (\<forall>i \<in> set is. f i))"
  by (induction "is" arbitrary: s) auto

lemma set_loopIndices [simp]: "set (loopIndices n) = int ` {..<n}"
  by (auto simp: loopIndices_def)

lemma length_loopIndices [simp]: "length (loopIndices n) = n"
  by (simp add: loopIndices_def)

lemma satCell_in_range:
  assumes "i < length (sel res)" and "j < length (sel res ! i)"
  shows "satCell (Some res) sel (int i) (int j) = Return (sel res ! i ! j)"
  using assms by (simp add: satCell_def index_def)

lemma versionLoop_filter:
  assumes "\<forall>j \<in> set js. (\<forall>i \<in> set (loopIndices (length (elems (Upper slos)))).
               satCell (SLOsSatisfied ins) SatUpper i j = Return (U i j))
             \<and> (\<forall>i \<in> set (loopIndices (length (elems (Lower slos)))).
               satCell (SLOsSatisfied ins) SatLower i j = Return (Lo i j))"
  shows "versionLoop ins slos js sat =
           Return (sat @ filter (\<lambda>j. (\<forall>i \<in> set (loopIndices (length (elems (Upper slos)))). U i j)
                                   \<and> (\<forall>i \<in> set (loopIndices (length (elems (Lower slos)))). Lo i j)) js)"
  using assms
proof (induction js arbitrary: sat)
  case Nil
  then show ?case by simp
next
  case (Cons j js)
  from Cons.prems have
    u: "\<forall>i \<in> set (loopIndices (length (elems (Upper slos)))).
          satCell (SLOsSatisfied ins) SatUpper i j = Return (U i j)"
    and l: "\<forall>i \<in> set (loopIndices (length (elems (Lower slos)))).
          satCell (SLOsSatisfied ins) SatLower i j = Return (Lo i j)"
    by simp_all
  have su: "sloLoop (\<lambda>i. satCell (SLOsSatisfied ins) SatUpper i j)
              (loopIndices (length (elems (Upper slos)))) True
            = Return (True \<and> (\<forall>i \<in> set (loopIndices (length (elems (Upper slos)))). U i j))"
    by (rule sloLoop_all) (use u in simp)
  have sl: "sloLoop (\<lambda>i. satCell (SLOsSatisfied ins) SatLower i j)
              (loopIndices (length (elems (Lower slos)))) s
            = Return (s \<and> (\<forall>i \<in> set (loopIndices (length (elems (Lower slos)))). Lo i j))" for s
    by (rule sloLoop_all) (use l in simp)
  from Cons.prems have rest: "\<forall>j \<in> set js. (\<forall>i \<in> set (loopIndices (length (elems (Upper slos)))).
               satCell (SLOsSatisfied ins) SatUpper i j = Return (U i j))
             \<and> (\<forall>i \<in> set (loopIndices (length (elems (Lower slos)))).
               satCell (SLOsSatisfied ins) SatLower i j = Return (Lo i j))"
    by simp
  show ?case
    by (simp only: versionLoop.simps su sl go.case Cons.IH [OF rest]) auto
qed

lemma length_filter_eq_length: "length (filter P xs) = length xs \<longleftrightarrow> (\<forall>x \<in> set xs. P x)"
proof (induction xs)
  case Nil
  then show ?case by simp
next
  case (Cons x xs)
  show ?case
  proof (cases "P x")
    case True
    with Cons show ?thesis by simp
  next
    case False
    have "length (filter P xs) \<le> length xs" by simp
    then have "length (filter P xs) \<noteq> Suc (length xs)" by linarith
    with False show ?thesis by simp
  qed
qed

lemma SLOs_sized:
  assumes r: "Result e = Some r" and ins: "Insights r = Some ins"
    and n: "1 \<le> NumVersions ins" and slos: "SLOs ins = Some slos"
    and res: "SLOsSatisfied ins = Some res" and sized: "sloMatricesSized ins slos res"
  shows "Experiment_SLOs (Some e) = Return (everyVersionSatisfiesEverySLO ins slos res)"
proof -
  let ?n = "nat (NumVersions ins)"
  let ?U = "\<lambda>i j. SatUpper res ! nat i ! nat j" and ?L = "\<lambda>i j. SatLower res ! nat i ! nat j"
  define P where "P = (\<lambda>j. (\<forall>i \<in> set (loopIndices (length (elems (Upper slos)))). ?U i j)
                           \<and> (\<forall>i \<in> set (loopIndices (length (elems (Lower slos)))). ?L i j))"
  have cells: "\<forall>j \<in> set (loopIndices ?n). (\<forall>i \<in> set (loopIndices (length (elems (Upper slos)))).
               satCell (SLOsSatisfied ins) SatUpper i j = Return (?U i j))
             \<and> (\<forall>i \<in> set (loopIndices (length (elems (Lower slos)))).
               satCell (SLOsSatisfied ins) SatLower i j = Return (?L i j))"
    using sized res by (auto simp: sloMatricesSized_def satCell_in_range)
  have "getSLOsSatisfiedBy (Some e) = Return (filter P (loopIndices ?n))"
    using r ins n slos versionLoop_filter [OF cells, of "[]"]
    by (simp add: getSLOsSatisfiedBy_def P_def)
  then have 1: "Experiment_SLOs (Some e)
                 = Return (NumVersions ins = int (length (filter P (loopIndices ?n))))"
    using r ins by (simp add: Experiment_SLOs_def)
  have "int ?n = NumVersions ins" using n by simp
  then have 2: "(NumVersions ins = int (length (filter P (loopIndices ?n))))
           \<longleftrightarrow> length (filter P (loopIndices ?n)) = length (loopIndices ?n)"
    by auto
  have 3: "(\<forall>j \<in> set (loopIndices ?n). P j) \<longleftrightarrow> everyVersionSatisfiesEverySLO ins slos res"
    by (auto simp: P_def everyVersionSatisfiesEverySLO_def)
  show ?thesis
    unfolding 1 2 length_filter_eq_length 3 ..
qed

text \<open>
  C1, as the code has it. \<^verbatim>\<open>SLOs()\<close> returns false when the experiment, its result or its
  insights is nil. With insights it returns true when \<open>NumVersions\<close> is zero; with at least
  one version it returns true when no SLOs are configured, and when SLOs are configured (the
  satisfaction matrices sized as the data model requires) it returns true exactly when every
  version satisfies every configured SLO.
\<close>

theorem Experiment_SLOs_cases:
  "Experiment_SLOs (None :: ('f, 't) Experiment option) = Return False
   \<and> (Result e = None \<longrightarrow> Experiment_SLOs (Some e) = Return False)
   \<and> (Result e = Some r \<and> Insights r = None \<longrightarrow> Experiment_SLOs (Some e) = Return False)
   \<and> (Result e = Some r \<and> Insights r = Some ins \<and> NumVersions ins = 0
        \<longrightarrow> Experiment_SLOs (Some e) = Return True)
   \<and> (Result e = Some r \<and> Insights r = Some ins \<and> 1 \<le> NumVersions ins \<and> SLOs ins = None
        \<longrightarrow> Experiment_SLOs (Some e) = Return True)
   \<and> (Result e = Some r \<and> Insights r = Some ins \<and> 1 \<le> NumVersions ins
        \<and> SLOs ins = Some slos \<and> SLOsSatisfied ins = Some res \<and> sloMatricesSized ins slos res
        \<longrightarrow> Experiment_SLOs (Some e) = Return (everyVersionSatisfiesEverySLO ins slos res))"
proof -
  have a: "Experiment_SLOs (None :: ('f, 't) Experiment option) = Return False"
    by (simp add: Experiment_SLOs_def)
  have b: "Result e = None \<longrightarrow> Experiment_SLOs (Some e) = Return False"
    by (simp add: Experiment_SLOs_def)
  have c: "Result e = Some r \<and> Insights r = None \<longrightarrow> Experiment_SLOs (Some e) = Return False"
    by (simp add: Experiment_SLOs_def)
  have d: "Result e = Some r \<and> Insights r = Some ins \<and> NumVersions ins = 0
        \<longrightarrow> Experiment_SLOs (Some e) = Return True"
    by (simp add: Experiment_SLOs_def getSLOsSatisfiedBy_def)
  have f: "Result e = Some r \<and> Insights r = Some ins \<and> 1 \<le> NumVersions ins \<and> SLOs ins = None
        \<longrightarrow> Experiment_SLOs (Some e) = Return True"
    by (auto simp: Experiment_SLOs_def getSLOsSatisfiedBy_def)
  have g: "Result e = Some r \<and> Insights r = Some ins \<and> 1 \<le> NumVersions ins
        \<and> SLOs ins = Some slos \<and> SLOsSatisfied ins = Some res \<and> sloMatricesSized ins slos res
        \<longrightarrow> Experiment_SLOs (Some e) = Return (everyVersionSatisfiesEverySLO ins slos res)"
    using SLOs_sized by blast
  from a b c d f g show ?thesis by blast
qed

text \<open>
  With insights that record zero versions, \<^verbatim>\<open>getSLOsSatisfiedBy\<close> returns nil and
  \<^verbatim>\<open>SLOs()\<close> compares \<open>NumVersions = 0\<close> with its length: the answer is true, not false.
\<close>

theorem SLOs_zero_versions_counterexample:
  "NumVersions (the (Insights (the (Result zeroVersions)))) = 0
   \<and> Experiment_SLOs (Some zeroVersions) \<noteq> Return False"
  by (simp add: zeroVersions_def Experiment_SLOs_def getSLOsSatisfiedBy_def)


lemma twoVersions_sized:
  "sloMatricesSized twoVersionsInsights (the (SLOs twoVersionsInsights))
     (the (SLOsSatisfied twoVersionsInsights))"
  by (simp add: sloMatricesSized_def twoVersionsInsights_def elems_def)

lemma twoVersions_not_all:
  "\<not> everyVersionSatisfiesEverySLO twoVersionsInsights (the (SLOs twoVersionsInsights))
     (the (SLOsSatisfied twoVersionsInsights))"
  by (simp add: everyVersionSatisfiesEverySLO_def twoVersionsInsights_def elems_def
      numeral_2_eq_2 All_less_Suc)

theorem Experiment_SLOs_cases_witness:
  "Experiment_SLOs (Some \<lparr>Spec = [] :: unit list, Result = (None :: real ExperimentResult option)\<rparr>)
     = Return False
   \<and> Experiment_SLOs (Some \<lparr>Spec = [] :: unit list,
                               Result = Some (twoVersionsResult\<lparr>Insights := None\<rparr>)\<rparr>)
      = Return False
   \<and> NumVersions (the (Insights (the (Result zeroVersions)))) = 0
   \<and> Experiment_SLOs (Some zeroVersions) = Return True
   \<and> 1 \<le> NumVersions oneVersion \<and> SLOs oneVersion = None
   \<and> Experiment_SLOs (Some \<lparr>Spec = [] :: unit list,
                               Result = Some (twoVersionsResult\<lparr>Insights := Some oneVersion\<rparr>)\<rparr>)
      = Return True
   \<and> 1 \<le> NumVersions twoVersionsInsights
   \<and> sloMatricesSized twoVersionsInsights (the (SLOs twoVersionsInsights))
       (the (SLOsSatisfied twoVersionsInsights))
   \<and> \<not> everyVersionSatisfiesEverySLO twoVersionsInsights (the (SLOs twoVersionsInsights))
       (the (SLOsSatisfied twoVersionsInsights))
   \<and> Experiment_SLOs (Some twoVersions) = Return False"
proof -
  let ?none = "\<lparr>Spec = [] :: unit list, Result = (None :: real ExperimentResult option)\<rparr>"
  have "Result ?none = None" by simp
  with Experiment_SLOs_cases [of ?none]
  have a: "Experiment_SLOs (Some ?none) = Return False" by blast
  let ?noIns = "\<lparr>Spec = [] :: unit list,
                 Result = Some (twoVersionsResult\<lparr>Insights := None\<rparr>)\<rparr>"
  have "Result ?noIns = Some (twoVersionsResult\<lparr>Insights := None\<rparr>)"
    "Insights (twoVersionsResult\<lparr>Insights := None\<rparr>) = None"
    by simp_all
  with Experiment_SLOs_cases [of ?noIns "twoVersionsResult\<lparr>Insights := None\<rparr>"]
  have a': "Experiment_SLOs (Some ?noIns) = Return False" by blast
  let ?noSLOs = "\<lparr>Spec = [] :: unit list,
                  Result = Some (twoVersionsResult\<lparr>Insights := Some oneVersion\<rparr>)\<rparr>"
  have o: "1 \<le> NumVersions oneVersion" "SLOs oneVersion = None"
    by (simp_all add: oneVersion_def)
  have "Result ?noSLOs = Some (twoVersionsResult\<lparr>Insights := Some oneVersion\<rparr>)"
    "Insights (twoVersionsResult\<lparr>Insights := Some oneVersion\<rparr>) = Some oneVersion"
    by simp_all
  with o Experiment_SLOs_cases [of ?noSLOs "twoVersionsResult\<lparr>Insights := Some oneVersion\<rparr>"
      oneVersion]
  have b': "Experiment_SLOs (Some ?noSLOs) = Return True" by blast
  have z: "Result zeroVersions = Some (the (Result zeroVersions))"
    "Insights (the (Result zeroVersions)) = Some (the (Insights (the (Result zeroVersions))))"
    "NumVersions (the (Insights (the (Result zeroVersions)))) = 0"
    by (simp_all add: zeroVersions_def)
  with Experiment_SLOs_cases [of zeroVersions "the (Result zeroVersions)"
      "the (Insights (the (Result zeroVersions)))"]
  have b: "Experiment_SLOs (Some zeroVersions) = Return True" by blast
  have t: "Result twoVersions = Some (the (Result twoVersions))"
    "Insights (the (Result twoVersions)) = Some twoVersionsInsights"
    "1 \<le> NumVersions twoVersionsInsights"
    "SLOs twoVersionsInsights = Some (the (SLOs twoVersionsInsights))"
    "SLOsSatisfied twoVersionsInsights = Some (the (SLOsSatisfied twoVersionsInsights))"
    by (simp_all add: twoVersions_def twoVersionsResult_def twoVersionsInsights_def)
  with twoVersions_sized Experiment_SLOs_cases [of twoVersions "the (Result twoVersions)"
      twoVersionsInsights "the (SLOs twoVersionsInsights)" "the (SLOsSatisfied twoVersionsInsights)"]
  have "Experiment_SLOs (Some twoVersions)
          = Return (everyVersionSatisfiesEverySLO twoVersionsInsights (the (SLOs twoVersionsInsights))
              (the (SLOsSatisfied twoVersionsInsights)))"
    by blast
  with twoVersions_not_all have c: "Experiment_SLOs (Some twoVersions) = Return False" by simp
  from a a' z(3) b o b' t(3) twoVersions_sized twoVersions_not_all c show ?thesis by blast
qed

section \<open>Setting the SLOs\<close>

text \<open>
  C7. \<^verbatim>\<open>setSLOs\<close> is an idempotent setter. When the SLOs are set, a call with a structurally
  equal argument returns no error and a call with any other argument returns an error, and
  both leave the insights as they are; when they are not set, the argument is stored. A call
  that returned no error can be repeated with the same argument: it returns no error and
  changes nothing.
\<close>

theorem setSLOs_idempotent:
  "(SLOs ins = Some old \<and> slos = Some old \<longrightarrow> setSLOs ins slos = (ins, None))
   \<and> (SLOs ins = Some old \<and> slos \<noteq> Some old \<longrightarrow> setSLOs ins slos = (ins, Some ErrSLOConflict))
   \<and> (SLOs ins = None \<longrightarrow> setSLOs ins slos = (ins\<lparr>SLOs := slos\<rparr>, None))
   \<and> (setSLOs ins slos = (ins1, None) \<longrightarrow> setSLOs ins1 slos = (ins1, None))"
  by (auto simp: setSLOs_def split: if_splits)

theorem setSLOs_idempotent_witness:
  "setSLOs oneVersion (Some errorRateLimits) = (oneVersion\<lparr>SLOs := Some errorRateLimits\<rparr>, None)
   \<and> setSLOs (oneVersion\<lparr>SLOs := Some errorRateLimits\<rparr>) (Some errorRateLimits)
       = (oneVersion\<lparr>SLOs := Some errorRateLimits\<rparr>, None)
   \<and> Some (errorRateLimits\<lparr>Lower := Some []\<rparr>) \<noteq> Some errorRateLimits
   \<and> setSLOs (oneVersion\<lparr>SLOs := Some errorRateLimits\<rparr>) (Some (errorRateLimits\<lparr>Lower := Some []\<rparr>))
       = (oneVersion\<lparr>SLOs := Some errorRateLimits\<rparr>, Some ErrSLOConflict)"
proof -
  let ?set = "oneVersion\<lparr>SLOs := Some errorRateLimits\<rparr>"
  have n: "SLOs oneVersion = None" by (simp add: oneVersion_def)
  have s: "SLOs ?set = Some errorRateLimits" by simp
  have d: "Some (errorRateLimits\<lparr>Lower := Some []\<rparr>) \<noteq> Some errorRateLimits"
    by (simp add: errorRateLimits_def)
  from setSLOs_idempotent [of oneVersion errorRateLimits "Some errorRateLimits"] n
  have a: "setSLOs oneVersion (Some errorRateLimits) = (?set, None)" by blast
  from setSLOs_idempotent [of oneVersion errorRateLimits "Some errorRateLimits" ?set] a
  have b: "setSLOs ?set (Some errorRateLimits) = (?set, None)" by blast
  from setSLOs_idempotent [of ?set errorRateLimits "Some errorRateLimits"] s
  have "setSLOs ?set (Some errorRateLimits) = (?set, None)" by blast
  from setSLOs_idempotent [of ?set errorRateLimits "Some (errorRateLimits\<lparr>Lower := Some []\<rparr>)"] s d
  have c: "setSLOs ?set (Some (errorRateLimits\<lparr>Lower := Some []\<rparr>)) = (?set, Some ErrSLOConflict)"
    by blast
  from a b d c show ?thesis by blast
qed

section \<open>Sample aggregation\<close>

lemma getSampleAggregation_observations:
  assumes "0 \<le> i" and "i < int (length (NonHistMetricValues ins))"
  shows "getSampleAggregation L ins i b a =
     (let vals = observations ins i b in
      if length vals = 1 then Return (Some (vals ! 0))
      else if a = MeanAggregator then Return (stats_Mean L vals)
      else if a = StdDevAggregator then Return (stats_StandardDeviation L vals)
      else if a = MinAggregator then Return (stats_Min L vals)
      else if a = MaxAggregator then Return (stats_Mean L vals)
      else if HasPrefix a ''p'' then
        (if regexp_MatchDecimal L (TrimPrefix a ''p'') then
           (case strconv_ParseFloat L (TrimPrefix a ''p'') of
              None \<Rightarrow> Return None
            | Some percent \<Rightarrow> Return (stats_Percentile L vals percent))
         else Return None)
      else Return None)"
  using assms by (simp add: getSampleAggregation_def observations_def index_def Let_def)

text \<open>
  C6. For every aggregator token \<open>a\<close> and every version \<open>i\<close> of the store: when the
  version has no observation of the base metric the aggregation is absent, and when it has
  exactly one observation the aggregation is that observation. The empty case falls through
  to the statistics package, which reports an error on empty input.
\<close>

theorem sample_edge_cases:
  assumes "0 \<le> i" and "i < int (length (NonHistMetricValues ins))" and "statsFailOnEmpty L"
  shows "(observations ins i b = [] \<longrightarrow> getSampleAggregation L ins i b a = Return None)
       \<and> (observations ins i b = [v] \<longrightarrow> getSampleAggregation L ins i b a = Return (Some v))"
  using assms(3)
  by (auto simp: getSampleAggregation_observations [OF assms(1,2)] statsFailOnEmpty_def
      split: option.splits)

lemma declib_statsFailOnEmpty: "statsFailOnEmpty declib"
  by (simp add: statsFailOnEmpty_def declib_defs)

theorem sample_edge_cases_witness:
  "(0::int) \<le> 0 \<and> 0 < int (length (NonHistMetricValues afterUpdate)) \<and> statsFailOnEmpty declib
   \<and> observations afterUpdate 0 ''grpc/latency'' = []
   \<and> getSampleAggregation declib afterUpdate 0 ''grpc/latency'' ''p95'' = Return None
   \<and> observations afterUpdate 0 ''http/latency-p95'' = [12.5]
   \<and> getSampleAggregation declib afterUpdate 0 ''http/latency-p95'' ''stddev'' = Return (Some 12.5)"
proof -
  have z: "(0::int) \<le> 0" by simp
  have l: "0 < int (length (NonHistMetricValues afterUpdate))" by (simp add: afterUpdate_def)
  have e: "observations afterUpdate 0 ''grpc/latency'' = []"
    by (simp add: observations_def afterUpdate_def map_get_def)
  have o: "observations afterUpdate 0 ''http/latency-p95'' = [12.5]"
    by (simp add: observations_def afterUpdate_def map_get_def)
  from sample_edge_cases [OF z l declib_statsFailOnEmpty, where b = "''grpc/latency''" and a = "''p95''"] e
  have a: "getSampleAggregation declib afterUpdate 0 ''grpc/latency'' ''p95'' = Return None"
    by blast
  from sample_edge_cases [OF z l declib_statsFailOnEmpty, where b = "''http/latency-p95''" and a = "''stddev''"
      and v = "12.5"] o
  have b: "getSampleAggregation declib afterUpdate 0 ''http/latency-p95'' ''stddev'' = Return (Some 12.5)"
    by blast
  from z l declib_statsFailOnEmpty e a o b show ?thesis by blast
qed

lemma max_aggregator_calls_mean:
  "getSampleAggregation L ins i b MaxAggregator = getSampleAggregation L ins i b MeanAggregator"
  by (cases "index (NonHistMetricValues ins) i")
    (simp_all add: getSampleAggregation_def MeanAggregator_def StdDevAggregator_def
      MinAggregator_def MaxAggregator_def Let_def)

lemma count_aggregator_unhandled:
  assumes "0 \<le> i" and "i < int (length (NonHistMetricValues ins))"
  shows "getSampleAggregation L ins i b CountAggregator =
           (case observations ins i b of [v] \<Rightarrow> Return (Some v) | _ \<Rightarrow> Return None)"
  by (simp add: getSampleAggregation_observations [OF assms] MeanAggregator_def
      StdDevAggregator_def MinAggregator_def MaxAggregator_def CountAggregator_def HasPrefix_def
      split: list.splits)

lemma aggregated_name_beyond_store:
  assumes "Split m CHR ''/'' = [s0, s1, s2]"
    and "map_get (MetricsInfo ins) (s0 @ ''/'' @ s1) = Some mm" and "Type mm = SampleMetricType"
    and "int (length (NonHistMetricValues ins)) \<le> i"
  shows "ScalarMetricValue L ins i m = Panic IndexOutOfRange"
  using assms
  by (simp add: ScalarMetricValue_def aggregateMetric_def getSampleAggregation_def index_def)

lemma plain_name_beyond_store:
  assumes "length (Split m CHR ''/'') = 2"
    and "int (length (NonHistMetricValues ins)) \<le> i"
  shows "ScalarMetricValue L ins i m = Return None"
  using assms
  by (auto simp: ScalarMetricValue_def getCounterOrGaugeMetricFromValuesMap_def Let_def
      split: prod.splits option.splits)

lemma sampleInsights_observations: "observations sampleInsights 0 ''grpc/latency'' = [1, 3]"
  by (simp add: observations_def sampleInsights_def map_get_def)

text \<open>
  C2. On the sample 1, 3 the aggregator \<^verbatim>\<open>max\<close> returns 2, the mean, while the maximum of
  the observations is 3: the \<^verbatim>\<open>MaxAggregator\<close> case of \<^verbatim>\<open>getSampleAggregation\<close> calls
  \<^verbatim>\<open>stats.Mean\<close>.
\<close>

theorem max_returns_mean:
  "observations sampleInsights 0 ''grpc/latency'' = [1, 3]
   \<and> ScalarMetricValue declib sampleInsights 0 ''grpc/latency/max'' = Return (Some 2)
   \<and> getSampleAggregation declib sampleInsights 0 ''grpc/latency'' MaxAggregator = Return (Some 2)
   \<and> Max (set (observations sampleInsights 0 ''grpc/latency'')) = 3"
  by (simp add: sampleInsights_observations, simp add: ScalarMetricValue_def aggregateMetric_def
      index_def sampleInsights_def map_get_def sampleMeta_def getSampleAggregation_def
      MeanAggregator_def StdDevAggregator_def MinAggregator_def MaxAggregator_def declib_defs)

text \<open>
  C3. On the sample 1, 3 the aggregator \<^verbatim>\<open>count\<close> is absent, where the number of
  observations is 2: \<^verbatim>\<open>getSampleAggregation\<close> has no case for \<^verbatim>\<open>CountAggregator\<close>, and
  the token does not start with \<^verbatim>\<open>p\<close>. \<^verbatim>\<open>GetMetricsInfo\<close> knows the same name and gives
  it the meta of a counter.
\<close>

theorem count_is_absent:
  "observations sampleInsights 0 ''grpc/latency'' = [1, 3]
   \<and> ScalarMetricValue declib sampleInsights 0 ''grpc/latency/count'' = Return None
   \<and> getSampleAggregation declib sampleInsights 0 ''grpc/latency'' CountAggregator = Return None
   \<and> length (observations sampleInsights 0 ''grpc/latency'') = 2
   \<and> GetMetricsInfo sampleInsights ''grpc/latency/count''
       = (Some \<lparr>Description = ''count value of grpc/latency'', Units = Some ''msec'',
                 Type = CounterMetricType\<rparr>, None)"
  by (simp add: sampleInsights_observations, simp add: ScalarMetricValue_def aggregateMetric_def
      index_def sampleInsights_def map_get_def sampleMeta_def getSampleAggregation_def
      MeanAggregator_def StdDevAggregator_def MinAggregator_def MaxAggregator_def
      CountAggregator_def HasPrefix_def GetMetricsInfo_def PercentileAggregatorPrefix_def)

text \<open>
  C10. With one version in the store, \<^verbatim>\<open>ScalarMetricValue\<close> for version index 1 and the
  aggregated name \<^verbatim>\<open>grpc/latency/mean\<close> panics: \<^verbatim>\<open>getSampleAggregation\<close> indexes
  \<^verbatim>\<open>NonHistMetricValues\<close> without the bounds check that
  \<^verbatim>\<open>getCounterOrGaugeMetricFromValuesMap\<close> makes, which returns nil for the same index.
\<close>

theorem aggregated_name_out_of_range_panics:
  "int (length (NonHistMetricValues sampleInsights)) \<le> 1
   \<and> ScalarMetricValue L sampleInsights 1 ''grpc/latency/mean'' = Panic IndexOutOfRange
   \<and> ScalarMetricValue declib afterUpdate 1 ''http/latency-p95'' = Return None"
  by (simp add: ScalarMetricValue_def aggregateMetric_def index_def sampleInsights_def
      map_get_def sampleMeta_def getSampleAggregation_def Normalize_http_p95
      getCounterOrGaugeMetricFromValuesMap_def afterUpdate_def gaugeMeta_def)

section \<open>The engine\<close>

lemma incr_plain: "- (2 ^ 63) \<le> x \<Longrightarrow> x < 2 ^ 63 - 1 \<Longrightarrow> incr x = x + 1"
  by (simp add: incr_def)

text \<open>
  C8. A task whose \<^verbatim>\<open>if\<close> predicate evaluates to false is skipped: the engine goes
  straight to the completion step with the experiment as it was, and the task's \<^verbatim>\<open>run\<close>
  method has no part in the result. The completion step is the one taken after a task that
  ran without error: \<^verbatim>\<open>NumCompletedTasks\<close> is incremented and the experiment is written
  through the driver.
\<close>

theorem skipped_task_completes:
  "(getName (task_meta E t) \<noteq> None \<and> getIf (task_meta E t) = Some c
      \<and> expr_eval E c ex = Output False
      \<longrightarrow> runTasks E (t # ts) ex d = completeTask E ts ex d)
   \<and> (getName (task_meta E t) \<noteq> None \<and> getIf (task_meta E t) = Some c
      \<and> expr_eval E c ex = Output False \<and> Result ex = Some r
      \<longrightarrow> runTasks E [t] ex d =
            (let ex' = ex\<lparr>Result := Some (r\<lparr>NumCompletedTasks := incr (NumCompletedTasks r)\<rparr>)\<rparr>
             in Return (ex', driver_Write E d ex')))
   \<and> (getName (task_meta E t') \<noteq> None
      \<and> (getIf (task_meta E t') = None
           \<or> getIf (task_meta E t') = Some c' \<and> expr_eval E c' ex = Output True)
      \<and> task_run E t' ex = (exr, None)
      \<longrightarrow> runTasks E (t' # ts) ex d = completeTask E ts exr d)"
  by (auto simp: completeTask_def incrementNumCompletedTasks_def Let_def
      split: option.splits prod.splits)

lemma SLOs_false_on_twoVersionsResult:
  assumes "Result e = Some (twoVersionsResult\<lparr>NumLoops := k\<rparr>)"
  shows "Experiment_SLOs (Some e) = Return False"
proof -
  have "Experiment_SLOs (Some e)
          = Return (everyVersionSatisfiesEverySLO twoVersionsInsights (the (SLOs twoVersionsInsights))
              (the (SLOsSatisfied twoVersionsInsights)))"
    by (rule SLOs_sized [OF assms _ _ _ _ twoVersions_sized])
      (simp_all add: twoVersionsResult_def twoVersionsInsights_def)
  with twoVersions_not_all show ?thesis by simp
qed

lemma guarded_false: "expr_eval memEngine ''SLOs()'' guardedExperiment = Output False"
proof -
  have "Result guardedExperiment = Some (twoVersionsResult\<lparr>NumLoops := 1\<rparr>)"
    by (simp add: guardedExperiment_def twoVersionsResult_def)
  then have "Experiment_SLOs (Some guardedExperiment) = Return False"
    by (rule SLOs_false_on_twoVersionsResult)
  then show ?thesis by (simp add: memEngine_def)
qed

theorem skipped_task_completes_witness:
  "getName (task_meta memEngine guardedTask) \<noteq> None
   \<and> getIf (task_meta memEngine guardedTask) = Some ''SLOs()''
   \<and> expr_eval memEngine ''SLOs()'' guardedExperiment = Output False
   \<and> task_run memEngine guardedTask guardedExperiment
        = (guardedExperiment, Some (ErrExternal ''exit status 1''))
   \<and> runTasks memEngine [guardedTask] guardedExperiment []
        = Return (guardedExperimentDone, [guardedExperimentDone], None)
   \<and> getName (task_meta memEngine echoTask) \<noteq> None
   \<and> getIf (task_meta memEngine echoTask) = None
   \<and> task_run memEngine echoTask guardedExperiment = (guardedExperiment, None)
   \<and> runTasks memEngine [echoTask] guardedExperiment []
        = Return (guardedExperimentDone, [guardedExperimentDone], None)"
proof -
  have n: "getName (task_meta memEngine guardedTask) \<noteq> None"
    and i: "getIf (task_meta memEngine guardedTask) = Some ''SLOs()''"
    and f: "task_run memEngine guardedTask guardedExperiment
              = (guardedExperiment, Some (ErrExternal ''exit status 1''))"
    by (simp_all add: memEngine_def guardedTask_def getName_def getIf_def)
  have n': "getName (task_meta memEngine echoTask) \<noteq> None"
    and i': "getIf (task_meta memEngine echoTask) = None"
    and s: "task_run memEngine echoTask guardedExperiment = (guardedExperiment, None)"
    by (simp_all add: memEngine_def echoTask_def getName_def getIf_def)
  have r: "Result guardedExperiment = Some twoVersionsResult"
    by (simp add: guardedExperiment_def)
  have fin: "guardedExperiment\<lparr>Result := Some (twoVersionsResult
                \<lparr>NumCompletedTasks := incr (NumCompletedTasks twoVersionsResult)\<rparr>)\<rparr>
              = guardedExperimentDone"
    by (simp add: guardedExperiment_def guardedExperimentDone_def twoVersionsResult_def incr_def)
  have w: "driver_Write memEngine [] guardedExperimentDone = ([guardedExperimentDone], None)"
    by (simp add: memEngine_def)
  from skipped_task_completes [where E = memEngine and t = guardedTask and c = "''SLOs()''"
      and ex = guardedExperiment and r = twoVersionsResult and d = "[]"] n i guarded_false r
  have "runTasks memEngine [guardedTask] guardedExperiment [] =
          (let ex' = guardedExperiment\<lparr>Result := Some (twoVersionsResult
                       \<lparr>NumCompletedTasks := incr (NumCompletedTasks twoVersionsResult)\<rparr>)\<rparr>
           in Return (ex', driver_Write memEngine [] ex'))"
    by blast
  then have a: "runTasks memEngine [guardedTask] guardedExperiment []
        = Return (guardedExperimentDone, [guardedExperimentDone], None)"
    by (simp add: fin w Let_def)
  from skipped_task_completes [where E = memEngine and ex = guardedExperiment and t' = echoTask
      and exr = guardedExperiment and ts = "[]" and d = "[]"] n' i' s
  have "runTasks memEngine [echoTask] guardedExperiment [] = completeTask memEngine [] guardedExperiment []"
    by blast
  then have b: "runTasks memEngine [echoTask] guardedExperiment []
        = Return (guardedExperimentDone, [guardedExperimentDone], None)"
    by (simp add: completeTask_def r fin w Let_def)
  from n i guarded_false f a n' i' s b show ?thesis by blast
qed

text \<open>
  The whole run of the guarded experiment: the loop counter goes to 2 and is written, the task
  is skipped although its script would fail, and the completed experiment is written.
\<close>

lemma run_guardedExperiment:
  "run memEngine guardedExperiment [] =
     Return (guardedExperiment\<lparr>Result := Some (twoVersionsResult\<lparr>NumLoops := 2, NumCompletedTasks := 1\<rparr>)\<rparr>,
             [guardedExperiment\<lparr>Result := Some (twoVersionsResult\<lparr>NumLoops := 2\<rparr>)\<rparr>,
              guardedExperiment\<lparr>Result := Some (twoVersionsResult\<lparr>NumLoops := 2, NumCompletedTasks := 1\<rparr>)\<rparr>],
             None)"
proof -
  let ?looped = "guardedExperiment\<lparr>Result := Some (twoVersionsResult\<lparr>NumLoops := 2\<rparr>)\<rparr>"
  have "Experiment_SLOs (Some ?looped) = Return False"
    by (rule SLOs_false_on_twoVersionsResult [where k = 2]) simp
  then have c: "expr_eval memEngine ''SLOs()'' ?looped = Output False"
    by (simp add: memEngine_def)
  have l: "incrementNumLoops guardedExperiment = Return ?looped"
    by (simp add: incrementNumLoops_def guardedExperiment_def twoVersionsResult_def incr_def)
  have m: "task_meta memEngine guardedTask = guardedTask"
    "driver_Write memEngine = (\<lambda>d ex. (d @ [ex], None))"
    by (simp_all add: memEngine_def)
  have s: "Spec ?looped = [guardedTask]" "Result guardedExperiment = Some twoVersionsResult"
    by (simp_all add: guardedExperiment_def)
  have k: "incrementNumCompletedTasks ?looped
             = Return (guardedExperiment\<lparr>Result := Some (twoVersionsResult\<lparr>NumLoops := 2, NumCompletedTasks := 1\<rparr>)\<rparr>)"
    by (simp add: incrementNumCompletedTasks_def twoVersionsResult_def incr_def)
  have g: "getName guardedTask = Some RunTaskName" "getIf guardedTask = Some ''SLOs()''"
    by (simp_all add: getName_def getIf_def guardedTask_def)
  show ?thesis
    by (simp add: run_def s l m g c k)
qed

end
